(* ===== verification/Prelude.thy ===== *)
theory Prelude
  imports Complex_Main
begin

text \<open>
  Shared vocabulary of the development. The three submissions keep their matrices in
  gl-matrix's \<open>mat4\<close> arrays (a \<open>Float32Array\<close> of 16 entries in column-major order),
  pass axes and offsets as JavaScript arrays of three numbers, and colours as four numbers.
  Numbers are modelled as exact reals: the statements below are about the arithmetic the
  code means, not about float32/double rounding.
  This theory names those types, declares the fact collections the component theories
  fill, and proves the generic facts on 16-element lists and on sine and cosine that the
  matrix proofs share.
\<close>

type_synonym mat4 = "real list"
type_synonym vec3 = "real list"
type_synonym vec4 = "real \<times> real \<times> real \<times> real"
type_synonym point = "real \<times> real"
type_synonym rgba = "real \<times> real \<times> real \<times> real"

named_theorems mat4_len "lengths of the matrices built by the gl-matrix operations"
named_theorems mat4_mult "gl-matrix operations rewritten as products with elementary matrices"

definition mat4_wf :: "mat4 \<Rightarrow> bool" where
  "mat4_wf m \<longleftrightarrow> length m = 16"

lemma mat4_wf_cases:
  assumes "mat4_wf xs"
  obtains x0 x1 x2 x3 x4 x5 x6 x7 x8 x9 x10 x11 x12 x13 x14 x15
  where "xs = [x0, x1, x2, x3, x4, x5, x6, x7, x8, x9, x10, x11, x12, x13, x14, x15]"
  using assms by (auto simp: mat4_wf_def length_Suc_conv numeral_eq_Suc intro: that)

lemma sin_cos_sq_sum: "(cos a * x - sin a * y)\<^sup>2 + (sin a * x + cos a * y)\<^sup>2 = x\<^sup>2 + (y::real)\<^sup>2"
proof -
  have "(sin a)\<^sup>2 + (cos a)\<^sup>2 = 1" by simp
  then show ?thesis by algebra
qed

lemma polar_sq_sum: "(r * cos a)\<^sup>2 + (r * sin a)\<^sup>2 = (r::real)\<^sup>2"
proof -
  have "(sin a)\<^sup>2 + (cos a)\<^sup>2 = 1" by simp
  then show ?thesis by algebra
qed

lemma sin_cos_plus_2npi:
  "sin (x + real n * (2 * pi)) = sin x" "cos (x + real n * (2 * pi)) = cos x"
proof (induction n)
  case 0
  show "sin (x + real 0 * (2 * pi)) = sin x" "cos (x + real 0 * (2 * pi)) = cos x" by simp_all
next
  case (Suc n)
  have e: "x + real (Suc n) * (2 * pi) = (x + real n * (2 * pi)) + 2 * pi" by (simp add: algebra_simps)
  show "sin (x + real (Suc n) * (2 * pi)) = sin x" "cos (x + real (Suc n) * (2 * pi)) = cos x"
    unfolding e by (simp_all only: sin_periodic cos_periodic Suc.IH)
qed

lemma sin_cos_shift_period:
  assumes "d = real n * (2 * pi)"
  shows "sin (x + d) = sin x" "cos (x + d) = cos x"
  using sin_cos_plus_2npi [of x n] assms by simp_all

lemma unit_point_eq_iff:
  "(cos a = cos b \<and> sin a = sin b) \<longleftrightarrow> (\<exists>n::int. a = b + real_of_int n * 2 * pi)"
proof
  assume e: "cos a = cos b \<and> sin a = sin b"
  have "cos (a - b) = (cos b)\<^sup>2 + (sin b)\<^sup>2" using e by (simp add: cos_diff power2_eq_square)
  then have "cos (a - b) = 1" by simp
  then obtain n :: int where "a - b = real_of_int n * 2 * pi" using cos_one_2pi_int by auto
  then show "\<exists>n::int. a = b + real_of_int n * 2 * pi" by (intro exI [of _ n]) simp
next
  assume "\<exists>n::int. a = b + real_of_int n * 2 * pi"
  then obtain n :: int where n: "a - b = real_of_int n * 2 * pi" by (auto simp: algebra_simps)
  then have c: "cos (a - b) = 1" using cos_one_2pi_int by blast
  have "(sin (a - b))\<^sup>2 + (cos (a - b))\<^sup>2 = 1" by (rule sin_cos_squared_add)
  then have s: "sin (a - b) = 0" using c by simp
  have "a = b + (a - b)" by simp
  then have "cos a = cos b * cos (a - b) - sin b * sin (a - b)" "sin a = sin b * cos (a - b) + cos b * sin (a - b)"
    by (metis cos_add, metis sin_add)
  then show "cos a = cos b \<and> sin a = sin b" using c s by simp
qed

lemma quarter_turns_iff: "(\<exists>n::int. t * pi / 2 = real_of_int n * 2 * pi) \<longleftrightarrow> (\<exists>n::int. t = 4 * real_of_int n)"
proof -
  have "t * pi / 2 = real_of_int n * 2 * pi \<longleftrightarrow> t = 4 * real_of_int n" for n :: int
    using pi_gt_zero by (auto simp: field_simps)
  then show ?thesis by simp
qed

end
