(* ===== verification/GlMatrix.thy ===== *)
theory GlMatrix
  imports Prelude
begin

text \<open>
  The part of the gl-matrix library (\<open>mat4\<close>) the three submissions call: \<open>create\<close>,
  \<open>multiply\<close>, \<open>rotate\<close>, \<open>rotateZ\<close>, \<open>translate\<close> and \<open>scale\<close>, and the product
  of a matrix with a homogeneous vector that the vertex shader computes from the uniform.
  The library is loaded by the pages and is not part of \<open>src/\<close>; each operation is
  written out as the library writes it, entry by entry in column-major order, with the
  \<open>a === out\<close> branches that make the operations safe when input and output alias.
  \<open>rotate\<close> returns \<open>null\<close> (here \<open>None\<close>) for an axis shorter than \<open>EPSILON\<close>.
  The lemmas rewrite every operation as a product with an elementary matrix and show that
  the product acts on vectors as composition, which is how the scene theories read the
  model matrices as plane transformations, and that products of planar matrices (identity
  on z, w row \<open>(0, 0, 0, 1)\<close>) are planar.
\<close>

definition EPSILON :: real where
  "EPSILON = 1 / 1000000"

definition mat4_create :: mat4 where
  "mat4_create = [1, 0, 0, 0,  0, 1, 0, 0,  0, 0, 1, 0,  0, 0, 0, 1]"

definition mat4_multiply :: "mat4 \<Rightarrow> mat4 \<Rightarrow> mat4" where
  "mat4_multiply a b =
    (let a00 = a!0; a01 = a!1; a02 = a!2; a03 = a!3;
         a10 = a!4; a11 = a!5; a12 = a!6; a13 = a!7;
         a20 = a!8; a21 = a!9; a22 = a!10; a23 = a!11;
         a30 = a!12; a31 = a!13; a32 = a!14; a33 = a!15;
         line = (\<lambda>b0 b1 b2 b3.
           [b0 * a00 + b1 * a10 + b2 * a20 + b3 * a30,
            b0 * a01 + b1 * a11 + b2 * a21 + b3 * a31,
            b0 * a02 + b1 * a12 + b2 * a22 + b3 * a32,
            b0 * a03 + b1 * a13 + b2 * a23 + b3 * a33])
     in line (b!0) (b!1) (b!2) (b!3) @ line (b!4) (b!5) (b!6) (b!7) @
        line (b!8) (b!9) (b!10) (b!11) @ line (b!12) (b!13) (b!14) (b!15))"

definition mat4_rotate :: "mat4 \<Rightarrow> real \<Rightarrow> vec3 \<Rightarrow> mat4 option" where
  "mat4_rotate a rad axis =
    (let x = axis!0; y = axis!1; z = axis!2;
         len = sqrt (x * x + y * y + z * z)
     in if len < EPSILON then None
        else
          (let len = 1 / len; x = x * len; y = y * len; z = z * len;
               s = sin rad; c = cos rad; t = 1 - c;
               a00 = a!0; a01 = a!1; a02 = a!2; a03 = a!3;
               a10 = a!4; a11 = a!5; a12 = a!6; a13 = a!7;
               a20 = a!8; a21 = a!9; a22 = a!10; a23 = a!11;
               b00 = x * x * t + c; b01 = y * x * t + z * s; b02 = z * x * t - y * s;
               b10 = x * y * t - z * s; b11 = y * y * t + c; b12 = z * y * t + x * s;
               b20 = x * z * t + y * s; b21 = y * z * t - x * s; b22 = z * z * t + c
           in Some
             [a00 * b00 + a10 * b01 + a20 * b02, a01 * b00 + a11 * b01 + a21 * b02,
              a02 * b00 + a12 * b01 + a22 * b02, a03 * b00 + a13 * b01 + a23 * b02,
              a00 * b10 + a10 * b11 + a20 * b12, a01 * b10 + a11 * b11 + a21 * b12,
              a02 * b10 + a12 * b11 + a22 * b12, a03 * b10 + a13 * b11 + a23 * b12,
              a00 * b20 + a10 * b21 + a20 * b22, a01 * b20 + a11 * b21 + a21 * b22,
              a02 * b20 + a12 * b21 + a22 * b22, a03 * b20 + a13 * b21 + a23 * b22,
              a!12, a!13, a!14, a!15]))"

definition mat4_rotateZ :: "mat4 \<Rightarrow> real \<Rightarrow> mat4" where
  "mat4_rotateZ a rad =
    (let s = sin rad; c = cos rad;
         a00 = a!0; a01 = a!1; a02 = a!2; a03 = a!3;
         a10 = a!4; a11 = a!5; a12 = a!6; a13 = a!7
     in [a00 * c + a10 * s, a01 * c + a11 * s, a02 * c + a12 * s, a03 * c + a13 * s,
         a10 * c - a00 * s, a11 * c - a01 * s, a12 * c - a02 * s, a13 * c - a03 * s,
         a!8, a!9, a!10, a!11, a!12, a!13, a!14, a!15])"

text \<open>\<open>translate\<close> has two branches: in place (\<open>a === out\<close>) only the last column is
  written; otherwise the first three columns are copied and the last one computed.\<close>

definition mat4_translate_inplace :: "mat4 \<Rightarrow> vec3 \<Rightarrow> mat4" where
  "mat4_translate_inplace a v =
    (let x = v!0; y = v!1; z = v!2
     in a[12 := a!0 * x + a!4 * y + a!8 * z + a!12,
          13 := a!1 * x + a!5 * y + a!9 * z + a!13,
          14 := a!2 * x + a!6 * y + a!10 * z + a!14,
          15 := a!3 * x + a!7 * y + a!11 * z + a!15])"

definition mat4_translate :: "mat4 \<Rightarrow> vec3 \<Rightarrow> mat4" where
  "mat4_translate a v =
    (let x = v!0; y = v!1; z = v!2;
         a00 = a!0; a01 = a!1; a02 = a!2; a03 = a!3;
         a10 = a!4; a11 = a!5; a12 = a!6; a13 = a!7;
         a20 = a!8; a21 = a!9; a22 = a!10; a23 = a!11
     in [a00, a01, a02, a03, a10, a11, a12, a13, a20, a21, a22, a23,
         a00 * x + a10 * y + a20 * z + a!12, a01 * x + a11 * y + a21 * z + a!13,
         a02 * x + a12 * y + a22 * z + a!14, a03 * x + a13 * y + a23 * z + a!15])"

definition mat4_scale :: "mat4 \<Rightarrow> vec3 \<Rightarrow> mat4" where
  "mat4_scale a v =
    (let x = v!0; y = v!1; z = v!2
     in [a!0 * x, a!1 * x, a!2 * x, a!3 * x, a!4 * y, a!5 * y, a!6 * y, a!7 * y,
         a!8 * z, a!9 * z, a!10 * z, a!11 * z, a!12, a!13, a!14, a!15])"

text \<open>The vertex shader's \<open>u_transform * vec4(a_position, 0.0, 1.0)\<close>: a column-major
  matrix applied to a homogeneous vector.\<close>

definition mat4_mulv :: "mat4 \<Rightarrow> vec4 \<Rightarrow> vec4" where
  "mat4_mulv m v =
    (case v of (x, y, z, w) \<Rightarrow>
      (m!0 * x + m!4 * y + m!8 * z + m!12 * w,
       m!1 * x + m!5 * y + m!9 * z + m!13 * w,
       m!2 * x + m!6 * y + m!10 * z + m!14 * w,
       m!3 * x + m!7 * y + m!11 * z + m!15 * w))"

subsection \<open>Elementary matrices\<close>

definition rotz_mat :: "real \<Rightarrow> mat4" where
  "rotz_mat rad = [cos rad, sin rad, 0, 0,  - sin rad, cos rad, 0, 0,  0, 0, 1, 0,  0, 0, 0, 1]"

definition transl_mat :: "vec3 \<Rightarrow> mat4" where
  "transl_mat v = [1, 0, 0, 0,  0, 1, 0, 0,  0, 0, 1, 0,  v!0, v!1, v!2, 1]"

definition scale_mat :: "vec3 \<Rightarrow> mat4" where
  "scale_mat v = [v!0, 0, 0, 0,  0, v!1, 0, 0,  0, 0, v!2, 0,  0, 0, 0, 1]"

text \<open>The contents of \<open>out\<close> after the statement \<open>mat4.rotate(out, a, rad, axis)\<close>,
  whose result the submissions ignore: on a degenerate axis the library returns \<open>null\<close>
  before writing, and \<open>out\<close> keeps what it held.\<close>

definition mat4_rotate_out :: "mat4 \<Rightarrow> mat4 \<Rightarrow> real \<Rightarrow> vec3 \<Rightarrow> mat4" where
  "mat4_rotate_out out a rad axis = (case mat4_rotate a rad axis of None \<Rightarrow> out | Some m \<Rightarrow> m)"

text \<open>The matrices a 2D scene needs: 16 entries, the z row and column those of the
  identity, and the w row \<open>(0, 0, 0, 1)\<close>. The vertex shader then maps every point
  \<open>(x, y, 0, 1)\<close> to a point with z = 0 and w = 1, so no perspective division and no
  depth clipping happen.\<close>

definition mat4_planar :: "mat4 \<Rightarrow> bool" where
  "mat4_planar m \<longleftrightarrow> mat4_wf m \<and> m!2 = 0 \<and> m!3 = 0 \<and> m!6 = 0 \<and> m!7 = 0 \<and>
     m!8 = 0 \<and> m!9 = 0 \<and> m!10 = 1 \<and> m!11 = 0 \<and> m!14 = 0 \<and> m!15 = 1"

subsection \<open>Shape: every operation builds a 16-entry matrix\<close>

lemma mat4_len_ops [mat4_len, simp]:
  "length mat4_create = 16"
  "length (mat4_multiply a b) = 16"
  "length (mat4_rotateZ a rad) = 16"
  "length (mat4_translate a v) = 16"
  "length (mat4_scale a v) = 16"
  "length (rotz_mat rad) = 16"
  "length (transl_mat v) = 16"
  "length (scale_mat v) = 16"
  by (simp_all add: mat4_create_def mat4_multiply_def mat4_rotateZ_def mat4_translate_def
      mat4_scale_def rotz_mat_def transl_mat_def scale_mat_def Let_def)

lemma mat4_rotate_len [mat4_len]: "mat4_rotate a rad axis = Some m \<Longrightarrow> length m = 16"
  by (auto simp: mat4_rotate_def Let_def split: if_splits)

lemma mat4_rotate_out_wf [intro]:
  "mat4_wf out \<Longrightarrow> mat4_wf (mat4_rotate_out out a rad axis)"
  by (auto simp: mat4_rotate_out_def mat4_wf_def dest: mat4_rotate_len split: option.splits)

lemma mat4_translate_inplace_len [mat4_len, simp]:
  "length (mat4_translate_inplace a v) = length a"
  by (simp add: mat4_translate_inplace_def Let_def)

subsection \<open>The operations as products with elementary matrices\<close>

lemma mat4_rotate_unit_z [mat4_mult]:
  "mat4_rotate a rad [0, 0, 1] = Some (mat4_multiply a (rotz_mat rad))"
  by (simp add: mat4_rotate_def mat4_multiply_def rotz_mat_def EPSILON_def Let_def algebra_simps)

lemma mat4_rotate_out_unit_z [mat4_mult, simp]:
  "mat4_rotate_out out a rad [0, 0, 1] = mat4_multiply a (rotz_mat rad)"
  by (simp add: mat4_rotate_out_def mat4_rotate_unit_z)

lemma mat4_rotateZ_mult [mat4_mult]: "mat4_rotateZ a rad = mat4_multiply a (rotz_mat rad)"
  by (simp add: mat4_rotateZ_def mat4_multiply_def rotz_mat_def Let_def algebra_simps)

lemma mat4_translate_mult [mat4_mult]: "mat4_translate a v = mat4_multiply a (transl_mat v)"
  by (simp add: mat4_translate_def mat4_multiply_def transl_mat_def Let_def algebra_simps)

lemma mat4_scale_mult [mat4_mult]: "mat4_scale a v = mat4_multiply a (scale_mat v)"
  by (simp add: mat4_scale_def mat4_multiply_def scale_mat_def Let_def algebra_simps)

lemma mat4_translate_inplace_eq:
  "mat4_wf a \<Longrightarrow> mat4_translate_inplace a v = mat4_translate a v"
  by (erule mat4_wf_cases) (simp add: mat4_translate_inplace_def mat4_translate_def Let_def)

subsection \<open>Products act on vectors as composition\<close>

lemma mat4_mulv_multiply [simp]:
  "mat4_mulv (mat4_multiply a b) v = mat4_mulv a (mat4_mulv b v)"
  by (cases v) (simp add: mat4_mulv_def mat4_multiply_def Let_def algebra_simps)

lemma mat4_multiply_assoc:
  "mat4_multiply (mat4_multiply a b) c = mat4_multiply a (mat4_multiply b c)"
  by (simp add: mat4_multiply_def Let_def algebra_simps)

lemma mat4_multiply_create_left [simp]: "mat4_wf a \<Longrightarrow> mat4_multiply mat4_create a = a"
  by (erule mat4_wf_cases) (simp add: mat4_multiply_def mat4_create_def Let_def)

lemma mat4_multiply_create_right [simp]: "mat4_wf a \<Longrightarrow> mat4_multiply a mat4_create = a"
  by (erule mat4_wf_cases) (simp add: mat4_multiply_def mat4_create_def Let_def)

lemma mat4_mulv_create [simp]: "mat4_mulv mat4_create v = v"
  by (cases v) (simp add: mat4_mulv_def mat4_create_def)

lemma mat4_wf_ops [simp, intro]:
  "mat4_wf mat4_create" "mat4_wf (mat4_multiply a b)" "mat4_wf (mat4_rotateZ a rad)"
  "mat4_wf (mat4_translate a v)" "mat4_wf (mat4_scale a v)" "mat4_wf (rotz_mat rad)"
  "mat4_wf (transl_mat v)" "mat4_wf (scale_mat v)"
  by (simp_all add: mat4_wf_def)

text \<open>Two well-formed matrices are equal when they act alike on the four unit vectors.\<close>

lemma mat4_eqI_mulv:
  assumes "mat4_wf a" "mat4_wf b"
    and "\<And>v. mat4_mulv a v = mat4_mulv b v"
  shows "a = b"
proof -
  from assms(1) obtain a0 a1 a2 a3 a4 a5 a6 a7 a8 a9 a10 a11 a12 a13 a14 a15
    where a: "a = [a0, a1, a2, a3, a4, a5, a6, a7, a8, a9, a10, a11, a12, a13, a14, a15]"
    by (rule mat4_wf_cases)
  from assms(2) obtain b0 b1 b2 b3 b4 b5 b6 b7 b8 b9 b10 b11 b12 b13 b14 b15
    where b: "b = [b0, b1, b2, b3, b4, b5, b6, b7, b8, b9, b10, b11, b12, b13, b14, b15]"
    by (rule mat4_wf_cases)
  have "mat4_mulv a (1, 0, 0, 0) = mat4_mulv b (1, 0, 0, 0)"
    "mat4_mulv a (0, 1, 0, 0) = mat4_mulv b (0, 1, 0, 0)"
    "mat4_mulv a (0, 0, 1, 0) = mat4_mulv b (0, 0, 1, 0)"
    "mat4_mulv a (0, 0, 0, 1) = mat4_mulv b (0, 0, 0, 1)"
    using assms(3) by simp_all
  then show ?thesis by (simp add: a b mat4_mulv_def)
qed

subsection \<open>The error path of rotate\<close>

lemma mat4_rotate_None_iff:
  "mat4_rotate a rad axis = None \<longleftrightarrow>
     sqrt (axis!0 * axis!0 + axis!1 * axis!1 + axis!2 * axis!2) < EPSILON"
  by (simp add: mat4_rotate_def Let_def)

lemma mat4_rotate_out_degenerate:
  "sqrt (axis!0 * axis!0 + axis!1 * axis!1 + axis!2 * axis!2) < EPSILON \<Longrightarrow>
     mat4_rotate_out out a rad axis = out"
  by (simp add: mat4_rotate_out_def mat4_rotate_def Let_def)


subsection \<open>Planar matrices\<close>

lemma mat4_planar_multiply [intro]:
  assumes "mat4_planar a" "mat4_planar b"
  shows "mat4_planar (mat4_multiply a b)"
proof -
  from assms(1) obtain a0 a1 a2 a3 a4 a5 a6 a7 a8 a9 a10 a11 a12 a13 a14 a15
    where A: "a = [a0, a1, a2, a3, a4, a5, a6, a7, a8, a9, a10, a11, a12, a13, a14, a15]"
    by (auto simp: mat4_planar_def elim: mat4_wf_cases)
  from assms(2) obtain b0 b1 b2 b3 b4 b5 b6 b7 b8 b9 b10 b11 b12 b13 b14 b15
    where B: "b = [b0, b1, b2, b3, b4, b5, b6, b7, b8, b9, b10, b11, b12, b13, b14, b15]"
    by (auto simp: mat4_planar_def elim: mat4_wf_cases)
  show ?thesis using assms by (simp add: mat4_planar_def mat4_wf_def mat4_multiply_def A B Let_def)
qed

lemma mat4_planar_elementary [simp, intro]:
  "mat4_planar mat4_create" "mat4_planar (rotz_mat rad)"
  "mat4_planar (transl_mat [x, y, 0])" "mat4_planar (scale_mat [x, y, 1])"
  by (simp_all add: mat4_planar_def mat4_wf_def mat4_create_def rotz_mat_def transl_mat_def
      scale_mat_def)

lemma mat4_planar_mulv:
  "mat4_planar m \<Longrightarrow> \<exists>x' y'. mat4_mulv m (x, y, 0, 1) = (x', y', 0, 1)"
  by (simp add: mat4_planar_def mat4_mulv_def)

end
