(* ===== verification/OrbitalSpec.thy ===== *)
theory OrbitalSpec
  imports GlMatrix
begin

text \<open>
  The abstract contract of the scene (spec sections 3 and 4.1, OrbitalSceneAnimator): five
  angle accumulators advanced by \<open>rate * dt\<close>, and three plane transformations built from
  rotations, translations and scalings of the plane, with the moon's orbital frame nested
  in the earth's orbital frame but not in the earth's spin. The rates are a parameter, as
  the spec leaves the earth's orbit rate to each submission. The theory also links the
  gl-matrix model to the plane: a point \<open>(x, y)\<close> is the homogeneous vector
  \<open>(x, y, 0, 1)\<close> the vertex shader builds from \<open>a_position\<close>, and the elementary
  matrices act on it as the plane maps do.
\<close>

subsection \<open>The plane\<close>

definition rot :: "real \<Rightarrow> point \<Rightarrow> point" where
  "rot a p = (case p of (x, y) \<Rightarrow> (cos a * x - sin a * y, sin a * x + cos a * y))"

definition transl :: "real \<Rightarrow> real \<Rightarrow> point \<Rightarrow> point" where
  "transl dx dy p = (case p of (x, y) \<Rightarrow> (x + dx, y + dy))"

definition scl :: "real \<Rightarrow> point \<Rightarrow> point" where
  "scl k p = (case p of (x, y) \<Rightarrow> (k * x, k * y))"

definition pnorm :: "point \<Rightarrow> real" where
  "pnorm p = (case p of (x, y) \<Rightarrow> sqrt (x\<^sup>2 + y\<^sup>2))"

definition pdist :: "point \<Rightarrow> point \<Rightarrow> real" where
  "pdist p q = pnorm (fst p - fst q, snd p - snd q)"

definition lift :: "point \<Rightarrow> vec4" where
  "lift p = (case p of (x, y) \<Rightarrow> (x, y, 0, 1))"

subsection \<open>The contract: angle state, advance, transforms\<close>

record angle_state =
  sunSpin :: real
  earthSpin :: real
  earthOrbit :: real
  moonSpin :: real
  moonOrbit :: real

record rates =
  sunSpinRate :: real
  earthSpinRate :: real
  earthOrbitRate :: real
  moonSpinRate :: real
  moonOrbitRate :: real

definition zero_angles :: angle_state where
  "zero_angles = \<lparr>sunSpin = 0, earthSpin = 0, earthOrbit = 0, moonSpin = 0, moonOrbit = 0\<rparr>"

definition advance :: "rates \<Rightarrow> real \<Rightarrow> angle_state \<Rightarrow> angle_state" where
  "advance r dt st =
     \<lparr>sunSpin = sunSpin st + sunSpinRate r * dt,
      earthSpin = earthSpin st + earthSpinRate r * dt,
      earthOrbit = earthOrbit st + earthOrbitRate r * dt,
      moonSpin = moonSpin st + moonSpinRate r * dt,
      moonOrbit = moonOrbit st + moonOrbitRate r * dt\<rparr>"

definition scaled_angles :: "rates \<Rightarrow> real \<Rightarrow> angle_state" where
  "scaled_angles r e =
     \<lparr>sunSpin = sunSpinRate r * e, earthSpin = earthSpinRate r * e,
      earthOrbit = earthOrbitRate r * e, moonSpin = moonSpinRate r * e,
      moonOrbit = moonOrbitRate r * e\<rparr>"

definition sun_tf :: "angle_state \<Rightarrow> point \<Rightarrow> point" where
  "sun_tf st = rot (sunSpin st) \<circ> scl 0.2"

definition earth_frame :: "angle_state \<Rightarrow> point \<Rightarrow> point" where
  "earth_frame st = rot (earthOrbit st) \<circ> transl 0.7 0"

definition earth_tf :: "angle_state \<Rightarrow> point \<Rightarrow> point" where
  "earth_tf st = earth_frame st \<circ> rot (earthSpin st) \<circ> scl 0.1"

definition moon_frame :: "angle_state \<Rightarrow> point \<Rightarrow> point" where
  "moon_frame st = earth_frame st \<circ> rot (moonOrbit st) \<circ> transl 0.2 0"

definition moon_tf :: "angle_state \<Rightarrow> point \<Rightarrow> point" where
  "moon_tf st = moon_frame st \<circ> rot (moonSpin st) \<circ> scl 0.05"

definition center :: "(point \<Rightarrow> point) \<Rightarrow> point" where
  "center f = f (0, 0)"

lemmas tf_defs = sun_tf_def earth_frame_def earth_tf_def moon_frame_def moon_tf_def

subsection \<open>Plane facts\<close>

lemma rot_zero [simp]: "rot a (0, 0) = (0, 0)"
  by (simp add: rot_def)

lemma scl_zero [simp]: "scl k (0, 0) = (0, 0)"
  by (simp add: scl_def)

lemma transl_apply [simp]: "transl dx dy (x, y) = (x + dx, y + dy)"
  by (simp add: transl_def)

lemma rot_0 [simp]: "rot 0 = id"
  by (simp add: rot_def fun_eq_iff)

lemma rot_rot [simp]: "rot a (rot b p) = rot (a + b) p"
  by (cases p) (simp add: rot_def cos_add sin_add algebra_simps)

lemma rot_transl: "rot a (transl dx 0 q) = transl (dx * cos a) (dx * sin a) (rot a q)"
  by (cases q) (simp add: rot_def transl_def algebra_simps)

lemma transl_cancel: "transl dx dy p = transl dx dy q \<longleftrightarrow> p = q"
  by (cases p, cases q) (simp add: transl_def)

lemma pnorm_rot [simp]: "pnorm (rot a p) = pnorm p"
  by (cases p) (simp add: rot_def pnorm_def sin_cos_sq_sum)

lemma pnorm_polar [simp]: "pnorm (r * cos a, r * sin a) = \<bar>r\<bar>"
  by (simp add: pnorm_def polar_sq_sum)

subsection \<open>The gl-matrix elementary matrices act on the plane\<close>

lemma mulv_rotz_lift [simp]: "mat4_mulv (rotz_mat a) (lift p) = lift (rot a p)"
  by (cases p) (simp add: mat4_mulv_def rotz_mat_def lift_def rot_def)

lemma mulv_transl_lift [simp]:
  "mat4_mulv (transl_mat [dx, dy, 0]) (lift p) = lift (transl dx dy p)"
  by (cases p) (simp add: mat4_mulv_def transl_mat_def lift_def)

lemma mulv_scale_lift [simp]:
  "mat4_mulv (scale_mat [k, k, kz]) (lift p) = lift (scl k p)"
  by (cases p) (simp add: mat4_mulv_def scale_mat_def lift_def scl_def)

lemma lift_inj [simp]: "lift p = lift q \<longleftrightarrow> p = q"
  by (cases p, cases q) (simp add: lift_def)

subsection \<open>What the contract gives\<close>

lemma earth_center: "center (earth_tf st) = (0.7 * cos (earthOrbit st), 0.7 * sin (earthOrbit st))"
  by (simp add: center_def tf_defs rot_def)

lemma moon_center:
  "center (moon_tf st) =
     (0.7 * cos (earthOrbit st) + 0.2 * cos (earthOrbit st + moonOrbit st),
      0.7 * sin (earthOrbit st) + 0.2 * sin (earthOrbit st + moonOrbit st))"
  by (simp add: center_def tf_defs rot_def cos_add sin_add algebra_simps)

lemma moon_earth_distance: "pdist (center (moon_tf st)) (center (earth_tf st)) = 0.2"
  using pnorm_polar [of "0.2" "earthOrbit st + moonOrbit st"]
  by (simp add: moon_center earth_center pdist_def)

lemma advance_add: "advance r dt2 (advance r dt1 st) = advance r (dt1 + dt2) st"
  by (simp add: advance_def algebra_simps)

lemma advance_zero [simp]: "advance r 0 st = st"
  by (simp add: advance_def)

lemma advance_scaled [simp]: "advance r dt (scaled_angles r e) = scaled_angles r (e + dt)"
  by (simp add: advance_def scaled_angles_def algebra_simps)

lemma scaled_angles_zero [simp]: "scaled_angles r 0 = zero_angles"
  by (simp add: scaled_angles_def zero_angles_def)

subsection \<open>Norm bounds\<close>

lemma pnorm_cmod: "pnorm (x, y) = cmod (Complex x y)"
  by (simp add: pnorm_def cmod_def)

lemma pnorm_transl: "pnorm (transl dx dy p) \<le> pnorm p + pnorm (dx, dy)"
proof (cases p)
  case (Pair x y)
  have "Complex (x + dx) (y + dy) = Complex x y + Complex dx dy" by (simp add: complex_eq_iff)
  then have "cmod (Complex (x + dx) (y + dy)) \<le> cmod (Complex x y) + cmod (Complex dx dy)"
    by (simp add: norm_triangle_ineq)
  then show ?thesis by (simp add: Pair pnorm_cmod)
qed

lemma pnorm_scl: "pnorm (scl k p) = \<bar>k\<bar> * pnorm p"
proof (cases p)
  case (Pair x y)
  have "(k * x)\<^sup>2 + (k * y)\<^sup>2 = k\<^sup>2 * (x\<^sup>2 + y\<^sup>2)" by (simp add: power_mult_distrib algebra_simps)
  then show ?thesis by (simp add: Pair scl_def pnorm_def real_sqrt_mult)
qed

lemma abs_le_pnorm: "\<bar>fst p\<bar> \<le> pnorm p" "\<bar>snd p\<bar> \<le> pnorm p"
  by (cases p, simp add: pnorm_def real_le_rsqrt)+

lemma pnorm_nonneg: "0 \<le> pnorm p" by (cases p) (simp add: pnorm_def)

lemma pnorm_axis [simp]: "0 \<le> a \<Longrightarrow> pnorm (a, 0) = a"
  by (simp add: pnorm_def)

lemma sun_center: "center (sun_tf st) = (0, 0)"
  by (simp add: center_def sun_tf_def)

lemma sun_tf_norm: "pnorm (sun_tf st p) \<le> 1 / 5 * pnorm p"
  by (simp add: sun_tf_def pnorm_scl)

lemma earth_tf_norm: "pnorm (earth_tf st p) \<le> 0.7 + 1 / 10 * pnorm p"
  using pnorm_transl [of "0.7" 0 "rot (earthSpin st) (scl 0.1 p)"]
  by (simp add: earth_tf_def earth_frame_def pnorm_scl)

lemma moon_tf_norm: "pnorm (moon_tf st p) \<le> 0.9 + 1 / 20 * pnorm p"
proof -
  let ?q = "rot (moonSpin st) (scl 0.05 p)"
  have a: "pnorm (transl 0.2 0 ?q) \<le> 0.05 * pnorm p + 0.2"
    using pnorm_transl [of "0.2" 0 ?q] by (simp add: pnorm_scl)
  have "pnorm (transl 0.7 0 (rot (moonOrbit st) (transl 0.2 0 ?q))) \<le>
          pnorm (transl 0.2 0 ?q) + 0.7"
    using pnorm_transl [of "0.7" 0 "rot (moonOrbit st) (transl 0.2 0 ?q)"] by simp
  with a show ?thesis by (simp add: moon_tf_def moon_frame_def earth_frame_def)
qed

end
