(* ===== verification/WebGL.thy ===== *)
theory WebGL
  imports OrbitalSpec
begin

text \<open>
  The rendering boundary (spec section 6). A frame's rendering is the list of WebGL calls
  it issues; \<open>gl_exec\<close> runs such a list against the program's uniform store (uniforms
  keep their value until they are set again, across draws and across frames) and records
  the uniforms each draw call sees. \<open>drawn_quads\<close> reads, for each draw, the model matrix
  and the colour under the names the submission's shader uses: this is the spec's
  \<open>drawQuad(transform, color)\<close>. The theory also holds the static quad mesh that
  \<open>setupBuffers\<close> uploads (a square of side 1 centred at the origin, four vertices and
  six indices) and the index check \<open>gl.drawElements\<close> performs.
\<close>

datatype uval = UMat mat4 | UVec rgba

type_synonym uniforms = "string \<Rightarrow> uval option"

datatype gl_cmd =
    Clear
  | DrawAxes
  | UseProgram
  | BindVertexArray
  | SetMat4 string mat4
  | SetVec4 string rgba
  | DrawElements nat
  | DrawArrays nat nat

fun gl_exec :: "uniforms \<Rightarrow> gl_cmd list \<Rightarrow> uniforms \<times> uniforms list" where
  "gl_exec u [] = (u, [])"
| "gl_exec u (SetMat4 n m # cs) = gl_exec (u(n \<mapsto> UMat m)) cs"
| "gl_exec u (SetVec4 n c # cs) = gl_exec (u(n \<mapsto> UVec c)) cs"
| "gl_exec u (DrawElements k # cs) = (case gl_exec u cs of (u', ds) \<Rightarrow> (u', u # ds))"
| "gl_exec u (DrawArrays f k # cs) = (case gl_exec u cs of (u', ds) \<Rightarrow> (u', u # ds))"
| "gl_exec u (Clear # cs) = gl_exec u cs"
| "gl_exec u (DrawAxes # cs) = gl_exec u cs"
| "gl_exec u (UseProgram # cs) = gl_exec u cs"
| "gl_exec u (BindVertexArray # cs) = gl_exec u cs"

definition quad_of :: "string \<Rightarrow> string \<Rightarrow> uniforms \<Rightarrow> (mat4 \<times> rgba) option" where
  "quad_of mname cname u =
     (case (u mname, u cname) of (Some (UMat m), Some (UVec c)) \<Rightarrow> Some (m, c) | _ \<Rightarrow> None)"

definition drawn_quads :: "string \<Rightarrow> string \<Rightarrow> uniforms \<Rightarrow> gl_cmd list \<Rightarrow> (mat4 \<times> rgba) option list" where
  "drawn_quads mname cname u cs = map (quad_of mname cname) (snd (gl_exec u cs))"

definition red :: rgba where "red = (1, 0, 0, 1)"
definition cyan :: rgba where "cyan = (0, 1, 1, 1)"
definition yellow :: rgba where "yellow = (1, 1, 0, 1)"

subsection \<open>The quad mesh\<close>

definition squareVertices :: "real list" where
  "squareVertices = [-0.5, 0.5,  -0.5, -0.5,  0.5, -0.5,  0.5, 0.5]"

definition square_indices :: "nat list" where
  "square_indices = [0, 1, 2,  0, 2, 3]"

fun attrib_pairs :: "real list \<Rightarrow> point list" where
  "attrib_pairs (x # y # rest) = (x, y) # attrib_pairs rest"
| "attrib_pairs _ = []"

text \<open>\<open>gl.drawElements(gl.TRIANGLES, count, gl.UNSIGNED_SHORT, 0)\<close>: the first
  \<open>count\<close> indices are read, and an index past the vertex buffer is an error
  (\<open>INVALID_OPERATION\<close>, nothing drawn).\<close>

definition draw_elements :: "point list \<Rightarrow> nat list \<Rightarrow> nat \<Rightarrow> point list option" where
  "draw_elements verts idx count =
     (if count \<le> length idx \<and> (\<forall>i \<in> set (take count idx). i < length verts)
      then Some (map ((!) verts) (take count idx)) else None)"

text \<open>The clip volume: a vertex with \<open>w = 1\<close> is visible when both its \<open>x\<close> and
  \<open>y\<close> lie strictly between -1 and 1.\<close>

definition in_clip :: "vec4 \<Rightarrow> bool" where
  "in_clip v = (case v of (x, y, z, w) \<Rightarrow> \<bar>x\<bar> < 1 \<and> \<bar>y\<bar> < 1)"

subsection \<open>Facts\<close>

lemma gl_exec_append:
  "gl_exec u (cs @ ds) =
     (case gl_exec u cs of (u1, d1) \<Rightarrow> (case gl_exec u1 ds of (u2, d2) \<Rightarrow> (u2, d1 @ d2)))"
  by (induction u cs rule: gl_exec.induct) (auto simp: fun_upd_def split: prod.splits)

lemma quad_of_set [simp]:
  "mname \<noteq> cname \<Longrightarrow> quad_of mname cname (u(mname \<mapsto> UMat m, cname \<mapsto> UVec c)) = Some (m, c)"
  by (simp add: quad_of_def)

lemma square_corners:
  "attrib_pairs squareVertices = [(-0.5, 0.5), (-0.5, -0.5), (0.5, -0.5), (0.5, 0.5)]"
  by (simp add: squareVertices_def)

lemma in_clip_lift: "pnorm q < 1 \<Longrightarrow> in_clip (lift q)"
  using abs_le_pnorm [of q] by (cases q) (simp add: in_clip_def lift_def)

lemma corners_small: "list_all (\<lambda>p. pnorm p \<le> 1) (attrib_pairs squareVertices)"
  by (simp add: square_corners pnorm_def power2_eq_square)

lemma tf_in_clip:
  "pnorm p \<le> 1 \<Longrightarrow> in_clip (lift (sun_tf st p)) \<and> in_clip (lift (earth_tf st p)) \<and> in_clip (lift (moon_tf st p))"
proof -
  assume p: "pnorm p \<le> 1"
  have "pnorm (sun_tf st p) < 1" "pnorm (earth_tf st p) < 1" "pnorm (moon_tf st p) < 1"
    using p sun_tf_norm [of st p] earth_tf_norm [of st p] moon_tf_norm [of st p] by linarith+
  then show ?thesis by (simp add: in_clip_lift)
qed

end
