(* ===== verification/Homework04.thy ===== *)
theory Homework04
  imports WebGL
begin

text \<open>
  \<open>src/Homework04_*/homework04.js\<close>. The module keeps five angle accumulators, the
  time of the previous frame and the three model matrices in module-level variables
  (\<open>homework04_state\<close>). \<open>updateTransforms\<close> advances the angles and rebuilds the three
  matrices from scratch, statement by statement, through the gl-matrix model;
  \<open>homework04_render\<close> is the list of WebGL calls of \<open>render\<close>;
  \<open>homework04_animate\<close> is one \<open>requestAnimationFrame\<close> callback, and
  \<open>homework04_run\<close> the callbacks for a sequence of frame timestamps.
  The lemmas show that the matrices are the contract's transforms for the current angles,
  that the angles advance by \<open>rate * dt\<close>, and what a run of frames accumulates.
\<close>

record homework04_state =
  lastTime :: real
  sunTransform :: mat4
  earthTransform :: mat4
  moonTransform :: mat4
  sunRotation :: real
  earthRotation :: real
  earthRevolution :: real
  moonRotation :: real
  moonRevolution :: real

definition homework04_init :: homework04_state where
  "homework04_init =
     \<lparr>lastTime = 0, sunTransform = mat4_create, earthTransform = mat4_create,
      moonTransform = mat4_create, sunRotation = 0, earthRotation = 0, earthRevolution = 0,
      moonRotation = 0, moonRevolution = 0\<rparr>"

definition updateTransforms :: "real \<Rightarrow> homework04_state \<Rightarrow> homework04_state" where
  "updateTransforms deltaTime s =
    (let sunRotation' = sunRotation s + (45 * pi / 180) * deltaTime;
         earthRotation' = earthRotation s + (180 * pi / 180) * deltaTime;
         earthRevolution' = earthRevolution s + (30 * pi / 180) * deltaTime;
         moonRotation' = moonRotation s + (180 * pi / 180) * deltaTime;
         moonRevolution' = moonRevolution s + (360 * pi / 180) * deltaTime;
         sunT = mat4_create;
         earthT = mat4_create;
         moonT = mat4_create;
         sunT = mat4_rotate_out sunT sunT sunRotation' [0, 0, 1];
         sunT = mat4_scale sunT [0.2, 0.2, 1];
         earthOrbit = mat4_create;
         earthOrbit = mat4_rotate_out earthOrbit earthOrbit earthRevolution' [0, 0, 1];
         earthOrbit = mat4_translate_inplace earthOrbit [0.7, 0, 0];
         earthT = mat4_rotate_out earthT earthOrbit earthRotation' [0, 0, 1];
         earthT = mat4_scale earthT [0.1, 0.1, 1];
         moonOrbit = mat4_create;
         moonOrbit = mat4_rotate_out moonOrbit moonOrbit moonRevolution' [0, 0, 1];
         moonOrbit = mat4_translate_inplace moonOrbit [0.2, 0, 0];
         moonBase = mat4_create;
         moonBase = mat4_multiply earthOrbit moonOrbit;
         moonT = mat4_rotate_out moonT moonBase moonRotation' [0, 0, 1];
         moonT = mat4_scale moonT [0.05, 0.05, 1]
     in s\<lparr>sunRotation := sunRotation', earthRotation := earthRotation',
          earthRevolution := earthRevolution', moonRotation := moonRotation',
          moonRevolution := moonRevolution',
          sunTransform := sunT, earthTransform := earthT, moonTransform := moonT\<rparr>)"

definition homework04_render :: "homework04_state \<Rightarrow> gl_cmd list" where
  "homework04_render s =
     [Clear, DrawAxes, UseProgram, BindVertexArray,
      SetMat4 ''u_transform'' (sunTransform s), SetVec4 ''u_color'' (1, 0, 0, 1), DrawElements 6,
      SetMat4 ''u_transform'' (earthTransform s), SetVec4 ''u_color'' (0, 1, 1, 1), DrawElements 6,
      SetMat4 ''u_transform'' (moonTransform s), SetVec4 ''u_color'' (1, 1, 0, 1), DrawElements 6]"

definition homework04_animate :: "homework04_state \<Rightarrow> real \<Rightarrow> homework04_state \<times> gl_cmd list" where
  "homework04_animate s currentTime =
    (let s = (if lastTime s = 0 then s\<lparr>lastTime := currentTime\<rparr> else s);
         deltaTime = (currentTime - lastTime s) / 1000;
         s = s\<lparr>lastTime := currentTime\<rparr>;
         s = updateTransforms deltaTime s
     in (s, homework04_render s))"

fun homework04_run :: "homework04_state \<Rightarrow> real list \<Rightarrow> homework04_state" where
  "homework04_run s [] = s"
| "homework04_run s (t # ts) = homework04_run (fst (homework04_animate s t)) ts"

subsection \<open>Abstraction to the contract\<close>

definition homework04_rates :: rates where
  "homework04_rates =
     \<lparr>sunSpinRate = 45 * pi / 180, earthSpinRate = 180 * pi / 180,
      earthOrbitRate = 30 * pi / 180, moonSpinRate = 180 * pi / 180,
      moonOrbitRate = 360 * pi / 180\<rparr>"

definition homework04_angles :: "homework04_state \<Rightarrow> angle_state" where
  "homework04_angles s =
     \<lparr>sunSpin = sunRotation s, earthSpin = earthRotation s, earthOrbit = earthRevolution s,
      moonSpin = moonRotation s, moonOrbit = moonRevolution s\<rparr>"

definition mat_center :: "mat4 \<Rightarrow> point" where
  "mat_center m = (case mat4_mulv m (lift (0, 0)) of (x, y, _, _) \<Rightarrow> (x, y))"

subsection \<open>The matrices updateTransforms builds\<close>

lemma updateTransforms_matrices:
  fixes dt s defines "s' \<equiv> updateTransforms dt s"
  shows "sunTransform s' = mat4_multiply (rotz_mat (sunRotation s')) (scale_mat [0.2, 0.2, 1])"
    and "earthTransform s' =
           mat4_multiply (mat4_multiply (mat4_multiply (rotz_mat (earthRevolution s'))
             (transl_mat [0.7, 0, 0])) (rotz_mat (earthRotation s'))) (scale_mat [0.1, 0.1, 1])"
    and "moonTransform s' =
           mat4_multiply (mat4_multiply (mat4_multiply
             (mat4_multiply (rotz_mat (earthRevolution s')) (transl_mat [0.7, 0, 0]))
             (mat4_multiply (rotz_mat (moonRevolution s')) (transl_mat [0.2, 0, 0])))
             (rotz_mat (moonRotation s'))) (scale_mat [0.05, 0.05, 1])"
  by (simp_all add: s'_def updateTransforms_def Let_def mat4_translate_inplace_eq
      mat4_translate_mult mat4_scale_mult)

lemma updateTransforms_angles [simp]:
  "sunRotation (updateTransforms dt s) = sunRotation s + (45 * pi / 180) * dt"
  "earthRotation (updateTransforms dt s) = earthRotation s + (180 * pi / 180) * dt"
  "earthRevolution (updateTransforms dt s) = earthRevolution s + (30 * pi / 180) * dt"
  "moonRotation (updateTransforms dt s) = moonRotation s + (180 * pi / 180) * dt"
  "moonRevolution (updateTransforms dt s) = moonRevolution s + (360 * pi / 180) * dt"
  "lastTime (updateTransforms dt s) = lastTime s"
  by (simp_all add: updateTransforms_def Let_def)

lemma updateTransforms_lift:
  fixes dt s defines "s' \<equiv> updateTransforms dt s"
  shows "mat4_mulv (sunTransform s') (lift p) = lift (sun_tf (homework04_angles s') p)"
    and "mat4_mulv (earthTransform s') (lift p) = lift (earth_tf (homework04_angles s') p)"
    and "mat4_mulv (moonTransform s') (lift p) = lift (moon_tf (homework04_angles s') p)"
  unfolding s'_def updateTransforms_matrices
  by (simp_all add: homework04_angles_def tf_defs)

lemma homework04_angles_update:
  "homework04_angles (updateTransforms dt s) = advance homework04_rates dt (homework04_angles s)"
  by (simp add: homework04_angles_def advance_def homework04_rates_def)

lemma homework04_angles_lastTime [simp]:
  "homework04_angles (s\<lparr>lastTime := t\<rparr>) = homework04_angles s"
  by (simp add: homework04_angles_def)

lemma mat_center_tf:
  assumes "\<And>p. mat4_mulv m (lift p) = lift (f p)"
  shows "mat_center m = center f"
  using assms [of "(0, 0)"] by (cases "f (0, 0)") (simp add: mat_center_def center_def lift_def)

lemma updateTransforms_compose:
  "updateTransforms dt2 (updateTransforms dt1 s) = updateTransforms (dt1 + dt2) s"
proof (rule homework04_state.equality)
qed (simp_all add: updateTransforms_matrices algebra_simps add_divide_distrib)

lemma updateTransforms_lastTime_upd:
  "updateTransforms dt (s\<lparr>lastTime := t\<rparr>) = (updateTransforms dt s)\<lparr>lastTime := t\<rparr>"
  by (simp add: updateTransforms_def Let_def)

lemma homework04_animate_state:
  "fst (homework04_animate s t) =
     updateTransforms ((t - (if lastTime s = 0 then t else lastTime s)) / 1000) (s\<lparr>lastTime := t\<rparr>)"
  by (simp add: homework04_animate_def Let_def)

lemma homework04_animate_render:
  "snd (homework04_animate s t) = homework04_render (fst (homework04_animate s t))"
  by (simp add: homework04_animate_def Let_def)

lemma homework04_run_angles:
  "lastTime s \<noteq> 0 \<Longrightarrow> list_all (\<lambda>t. t \<noteq> 0) ts \<Longrightarrow>
   homework04_angles (homework04_run s ts) =
     advance homework04_rates ((last (lastTime s # ts) - lastTime s) / 1000) (homework04_angles s)"
proof (induction ts arbitrary: s)
  case Nil
  then show ?case by simp
next
  case (Cons t ts)
  let ?s1 = "fst (homework04_animate s t)"
  have l1: "lastTime ?s1 = t" and t0: "t \<noteq> 0" using Cons.prems
    by (simp_all add: homework04_animate_state)
  have a1: "homework04_angles ?s1 =
      advance homework04_rates ((t - lastTime s) / 1000) (homework04_angles s)"
    using Cons.prems by (simp add: homework04_animate_state homework04_angles_update)
  have "homework04_angles (homework04_run ?s1 ts) =
          advance homework04_rates ((last (t # ts) - t) / 1000) (homework04_angles ?s1)"
    using Cons.IH [of ?s1] Cons.prems l1 t0 by simp
  then show ?case using a1 by (simp add: advance_add diff_divide_distrib)
qed

lemma updateTransforms_planar:
  "mat4_planar (sunTransform (updateTransforms dt s)) \<and>
   mat4_planar (earthTransform (updateTransforms dt s)) \<and>
   mat4_planar (moonTransform (updateTransforms dt s))"
  by (simp add: updateTransforms_matrices mat4_planar_multiply)

subsection \<open>Properties of homework04.js\<close>

text \<open>C1. One call of \<open>updateTransforms(dt)\<close> refines the contract's step: the five
  accumulators become \<open>advance(dt)\<close> of the old ones, and the three matrices it leaves in
  \<open>sunTransform\<close>, \<open>earthTransform\<close>, \<open>moonTransform\<close> map every point of the plane
  exactly as the contract's sun, earth and moon transforms for the new angles do.\<close>

theorem updateTransforms_refines:
  "homework04_angles (updateTransforms dt s) = advance homework04_rates dt (homework04_angles s) \<and>
   (\<forall>p. mat4_mulv (sunTransform (updateTransforms dt s)) (lift p) =
          lift (sun_tf (advance homework04_rates dt (homework04_angles s)) p)) \<and>
   (\<forall>p. mat4_mulv (earthTransform (updateTransforms dt s)) (lift p) =
          lift (earth_tf (advance homework04_rates dt (homework04_angles s)) p)) \<and>
   (\<forall>p. mat4_mulv (moonTransform (updateTransforms dt s)) (lift p) =
          lift (moon_tf (advance homework04_rates dt (homework04_angles s)) p))"
  by (simp add: updateTransforms_lift homework04_angles_update del: updateTransforms_angles)

text \<open>C3. The moon inherits the earth's orbital sweep but not its spin: the moon's matrix
  that \<open>updateTransforms\<close> builds does not depend on \<open>earthRotation\<close>.\<close>

theorem moon_ignores_earth_spin:
  "moonTransform (updateTransforms dt (s\<lparr>earthRotation := x\<rparr>)) = moonTransform (updateTransforms dt s)"
  by (simp add: updateTransforms_matrices)

text \<open>C4. After every update the moon's centre is at distance exactly 0.2 (the moon's
  orbit radius) from the earth's centre, whatever the angles.\<close>

theorem moon_earth_distance_hw:
  "pdist (mat_center (moonTransform (updateTransforms dt s)))
         (mat_center (earthTransform (updateTransforms dt s))) = 0.2"
  using mat_center_tf [OF updateTransforms_lift(3)] mat_center_tf [OF updateTransforms_lift(2)]
  by (simp add: moon_earth_distance)

text \<open>C7. Over a run of animation frames with non-zero timestamps, the accumulators hold
  each rate times the time elapsed since the first frame, in seconds: the per-frame deltas
  telescope and the first frame moves nothing.\<close>

theorem homework04_run_elapsed:
  "t0 \<noteq> 0 \<Longrightarrow> list_all (\<lambda>t. t \<noteq> 0) ts \<Longrightarrow>
   homework04_angles (homework04_run homework04_init (t0 # ts)) =
     scaled_angles homework04_rates ((last (t0 # ts) - t0) / 1000)"
  using homework04_run_angles [of "fst (homework04_animate homework04_init t0)" ts]
  by (simp add: homework04_animate_state homework04_angles_update homework04_init_def
      homework04_angles_def advance_def scaled_angles_def)

theorem homework04_run_elapsed_witness:
  "(1000::real) \<noteq> 0 \<and> list_all (\<lambda>t. t \<noteq> 0) [1016, 2000::real] \<and>
   homework04_angles (homework04_run homework04_init [1000, 1016, 2000]) =
     scaled_angles homework04_rates 1"
  using homework04_run_elapsed [of 1000 "[1016, 2000]"] by simp

text \<open>C8. \<open>render\<close> issues exactly three draw calls, sun, earth and moon in that order,
  each seeing the matrix just set in \<open>u_transform\<close> and a colour in \<open>u_color\<close>,
  whatever the uniforms held before.\<close>

theorem homework04_render_draws:
  "map (map_option fst) (drawn_quads ''u_transform'' ''u_color'' u (homework04_render s)) =
     [Some (sunTransform s), Some (earthTransform s), Some (moonTransform s)]"
  by (simp add: homework04_render_def drawn_quads_def quad_of_def)

text \<open>C12. Accumulation is linear and the matrices never drift: \<open>n + 1\<close> updates by
  \<open>dt\<close> leave the same state, matrices included, as one update by \<open>(n + 1) * dt\<close>.\<close>

theorem updateTransforms_linear:
  "(updateTransforms dt ^^ Suc n) s = updateTransforms (real (Suc n) * dt) s"
proof (induction n)
  case 0
  then show ?case by simp
next
  case (Suc n)
  have "(updateTransforms dt ^^ Suc (Suc n)) s = updateTransforms dt ((updateTransforms dt ^^ Suc n) s)"
    by simp
  also have "\<dots> = updateTransforms (real (Suc n) * dt + dt) s"
    by (simp only: Suc.IH updateTransforms_compose)
  finally show ?case by (simp add: algebra_simps)
qed

text \<open>C13. A second animation frame with the same timestamp as the previous one changes
  nothing: the state and the WebGL calls it renders are identical.\<close>

theorem homework04_animate_repeat:
  "homework04_animate (fst (homework04_animate s t)) t = homework04_animate s t"
proof -
  have st: "fst (homework04_animate (fst (homework04_animate s t)) t) = fst (homework04_animate s t)"
    by (simp add: homework04_animate_state updateTransforms_lastTime_upd updateTransforms_compose)
  then have "snd (homework04_animate (fst (homework04_animate s t)) t) = snd (homework04_animate s t)"
    by (simp add: homework04_animate_render)
  with st show ?thesis by (simp add: prod_eq_iff)
qed

text \<open>C14. The first frame leaves the sun's matrix a pure scaling by 0.2, and the earth's
  and the moon's matrices scalings by 0.1 and 0.05 translated to (0.7, 0) and (0.9, 0):
  at zero angles only the sun's matrix is free of translation.\<close>

theorem homework04_first_frame:
  "sunTransform (fst (homework04_animate homework04_init t)) =
     [0.2, 0, 0, 0,  0, 0.2, 0, 0,  0, 0, 1, 0,  0, 0, 0, 1] \<and>
   earthTransform (fst (homework04_animate homework04_init t)) =
     [0.1, 0, 0, 0,  0, 0.1, 0, 0,  0, 0, 1, 0,  0.7, 0, 0, 1] \<and>
   moonTransform (fst (homework04_animate homework04_init t)) =
     [0.05, 0, 0, 0,  0, 0.05, 0, 0,  0, 0, 1, 0,  0.9, 0, 0, 1]"
  by (simp add: homework04_animate_state updateTransforms_matrices homework04_init_def
      mat4_multiply_def rotz_mat_def transl_mat_def scale_mat_def Let_def)

text \<open>C15. When the update brings the earth's revolution angle to a quarter turn, the
  earth's centre moves to (0, 0.7).\<close>

theorem homework04_quarter_orbit:
  assumes h: "earthRevolution s + pi / 6 * dt = pi / 2"
  shows "mat_center (earthTransform (updateTransforms dt s)) = (0, 0.7)"
proof -
  have "earthRevolution (updateTransforms dt s) = earthRevolution s + pi / 6 * dt" by simp
  with h have a: "earthRevolution (updateTransforms dt s) = pi / 2" by simp
  show ?thesis
    using mat_center_tf [OF updateTransforms_lift(2), of dt s] a
    by (simp add: earth_center homework04_angles_def del: updateTransforms_angles)
qed

theorem homework04_quarter_orbit_witness:
  "earthRevolution homework04_init + pi / 6 * 3 = pi / 2 \<and>
   mat_center (earthTransform (updateTransforms 3 homework04_init)) = (0, 0.7)"
  using homework04_quarter_orbit [of homework04_init 3]
  by (simp add: homework04_init_def)

text \<open>C16. Whatever the angles, every corner of the three quads drawn after an update
  lies strictly inside the clip square: the moon reaches at most 0.9 + 0.05 from the
  origin, so no body ever leaves the canvas.\<close>

theorem homework04_in_viewport:
  "list_all (\<lambda>p. in_clip (mat4_mulv (sunTransform (updateTransforms dt s)) (lift p)) \<and>
                 in_clip (mat4_mulv (earthTransform (updateTransforms dt s)) (lift p)) \<and>
                 in_clip (mat4_mulv (moonTransform (updateTransforms dt s)) (lift p)))
     (attrib_pairs squareVertices)"
  using corners_small tf_in_clip [of _ "homework04_angles (updateTransforms dt s)"]
  by (simp add: updateTransforms_lift list_all_iff)

end
