(* ===== verification/Lifecycle.thy ===== *)
theory Lifecycle
  imports WebGL
begin

text \<open>
  The start-up and event loop that homework04.js and HW04.js share (the same lines in
  both files): the \<open>DOMContentLoaded\<close> handler runs \<open>main()\<close>, whose \<open>try\<close> block
  throws when \<open>initWebGL\<close> finds no WebGL 2 context and propagates a failure of
  \<open>initShader\<close>; the \<open>catch\<close> turns either into \<open>false\<close>. On success the handler sets
  \<open>isInitialized\<close> and schedules the first animation frame; every frame callback runs the
  submission's \<open>animate\<close>, which schedules the next one. The submission's \<open>animate\<close> is a
  parameter, so the lemmas here hold for both; \<open>app_reachable\<close> lets the browser deliver
  the load event and animation frames in any order, frames with non-decreasing timestamps.
  \<open>app_reachable_inv\<close> is the interface a submission uses to lift an invariant of its
  \<open>animate\<close> to every reachable state, and \<open>lockstep\<close> is the clock invariant both
  submissions' accumulators keep.
\<close>

record browser =
  has_webgl2 :: bool
  shaders_load :: bool

datatype init_error = WebGLInitFailed | ShaderInitFailed

definition initWebGL :: "browser \<Rightarrow> bool" where
  "initWebGL b = has_webgl2 b"

definition initShader :: "browser \<Rightarrow> init_error + unit" where
  "initShader b = (if shaders_load b then Inr () else Inl ShaderInitFailed)"

definition main_try :: "browser \<Rightarrow> init_error + unit" where
  "main_try b = (if \<not> initWebGL b then Inl WebGLInitFailed else initShader b)"

definition main_result :: "browser \<Rightarrow> bool" where
  "main_result b = (case main_try b of Inl _ \<Rightarrow> False | Inr _ \<Rightarrow> True)"

datatype phase = Loading | Halted | Animating

record 's app =
  isInitialized :: bool
  app_phase :: phase
  scene :: 's
  clock :: real

datatype event = DOMContentLoaded browser | AnimationFrame real

definition app_init :: "'s \<Rightarrow> 's app" where
  "app_init s0 = \<lparr>isInitialized = False, app_phase = Loading, scene = s0, clock = 0\<rparr>"

fun app_step :: "('s \<Rightarrow> real \<Rightarrow> 's \<times> gl_cmd list) \<Rightarrow> 's app \<Rightarrow> event \<Rightarrow> 's app \<times> gl_cmd list" where
  "app_step anim a (DOMContentLoaded b) =
     (if isInitialized a then (a, [])
      else if main_result b then (a\<lparr>isInitialized := True, app_phase := Animating\<rparr>, [])
      else (a\<lparr>app_phase := Halted\<rparr>, []))"
| "app_step anim a (AnimationFrame t) =
     (if app_phase a = Animating
      then (case anim (scene a) t of (s', cmds) \<Rightarrow> (a\<lparr>scene := s', clock := t\<rparr>, cmds))
      else (a, []))"

inductive app_reachable :: "('s \<Rightarrow> real \<Rightarrow> 's \<times> gl_cmd list) \<Rightarrow> 's \<Rightarrow> 's app \<Rightarrow> bool"
  for anim s0 where
  start: "app_reachable anim s0 (app_init s0)"
| load: "app_reachable anim s0 a \<Longrightarrow> app_reachable anim s0 (fst (app_step anim a (DOMContentLoaded b)))"
| frame: "app_reachable anim s0 a \<Longrightarrow> clock a \<le> t \<Longrightarrow>
     app_reachable anim s0 (fst (app_step anim a (AnimationFrame t)))"

text \<open>The frame-clock invariant a submission with angle accumulators keeps: the previous
  timestamp \<open>lt\<close> is non-negative and not after the host's clock, and the angles are the
  rates times the seconds elapsed from some start time \<open>t0\<close> (the timestamp of the first
  frame that set \<open>lastTime\<close>) to \<open>lt\<close>. \<open>ang\<close> reads the angles and \<open>lt\<close> the previous
  timestamp of the submission's state.\<close>

definition lockstep :: "('s \<Rightarrow> angle_state) \<Rightarrow> ('s \<Rightarrow> real) \<Rightarrow> rates \<Rightarrow> real \<Rightarrow> 's \<Rightarrow> bool" where
  "lockstep ang lt r c s \<longleftrightarrow> 0 \<le> lt s \<and> lt s \<le> c \<and>
     (\<exists>t0. 0 \<le> t0 \<and> t0 \<le> lt s \<and> ang s = scaled_angles r ((lt s - t0) / 1000))"

subsection \<open>Facts\<close>

lemma main_result_iff: "main_result b \<longleftrightarrow> has_webgl2 b \<and> shaders_load b"
  by (simp add: main_result_def main_try_def initWebGL_def initShader_def)

text \<open>Only the handler's success branch makes the app animate, and it sets
  \<open>isInitialized\<close> in the same step; before that no frame has touched the scene.\<close>

lemma app_reachable_phase:
  "app_reachable anim s0 a \<Longrightarrow>
     (app_phase a = Animating \<longleftrightarrow> isInitialized a) \<and> (\<not> isInitialized a \<longrightarrow> scene a = s0)"
proof (induction rule: app_reachable.induct)
  case start
  then show ?case by (simp add: app_init_def)
next
  case (load a b)
  then show ?case by auto
next
  case (frame a t)
  then show ?case by (auto split: prod.splits)
qed

lemma app_reachable_inv:
  assumes "app_reachable anim s0 a"
    and "P 0 s0"
    and "\<And>c s t. P c s \<Longrightarrow> c \<le> t \<Longrightarrow> P t (fst (anim s t))"
  shows "P (clock a) (scene a)"
  using assms(1)
proof (induction rule: app_reachable.induct)
  case start
  then show ?case using assms(2) by (simp add: app_init_def)
next
  case (load a b)
  then show ?case by simp
next
  case (frame a t)
  then show ?case using assms(3) [of "clock a" "scene a" t]
    by (auto split: prod.splits simp: prod_eq_iff)
qed

lemma lockstep_step:
  assumes inv: "lockstep ang lt r c s" and ct: "c \<le> t"
    and ang: "ang s' = advance r ((t - (if lt s = 0 then t else lt s)) / 1000) (ang s)"
    and lt: "lt s' = t"
  shows "lockstep ang lt r t s'"
proof -
  obtain t0 where t0: "0 \<le> t0" "t0 \<le> lt s" "ang s = scaled_angles r ((lt s - t0) / 1000)"
    and l: "0 \<le> lt s" "lt s \<le> c"
    using inv by (auto simp: lockstep_def)
  show ?thesis
  proof (cases "lt s = 0")
    case True
    then have "ang s' = scaled_angles r ((t - t) / 1000)" using t0 by (simp add: ang)
    then show ?thesis using l ct lt unfolding lockstep_def by (intro conjI exI [of _ t]) auto
  next
    case False
    have e: "(lt s - t0) / 1000 + (t - lt s) / 1000 = (t - t0) / 1000" by (simp add: field_simps)
    have "ang s' = scaled_angles r ((lt s - t0) / 1000 + (t - lt s) / 1000)"
      using False t0(3) by (simp add: ang)
    then have "ang s' = scaled_angles r ((t - t0) / 1000)" by (simp only: e)
    then show ?thesis using l ct lt t0(1,2) unfolding lockstep_def by auto
  qed
qed

lemma lockstep_start: "ang s0 = zero_angles \<Longrightarrow> lt s0 = 0 \<Longrightarrow> lockstep ang lt r 0 s0"
  unfolding lockstep_def by (intro conjI exI [of _ 0]) simp_all

lemma app_reachable_load_frame:
  "0 \<le> t \<Longrightarrow> app_reachable anim s0
     (fst (app_step anim (fst (app_step anim (app_init s0) (DOMContentLoaded b))) (AnimationFrame t)))"
  by (rule app_reachable.frame [OF app_reachable.load [OF app_reachable.start]])
     (simp add: app_init_def)

end
