(* ===== verification/HW04.thy ===== *)
theory HW04
  imports Homework04 Lifecycle
begin

text \<open>
  \<open>src/Homework04_*/HW04.js\<close>. The module keeps the five angles and the previous
  timestamp (\<open>hw04_state\<close>); \<open>animate\<close> advances the angles and calls \<open>render\<close>,
  which rebuilds each body's model matrix in a fresh \<open>mat4\<close> by in-place gl-matrix calls
  and draws it through \<open>drawSquare\<close>. The moon's matrix repeats the earth's orbital
  placement instead of sharing a matrix with it. The lemmas compare the submission with
  homework04.js: from corresponding states, the two draw the same matrices in the same
  colours, frame after frame and over any run. HW04.js's own start-up code (\<open>main\<close>,
  the load handler, the mesh) is modelled too and shown to be homework04.js's.
\<close>

record hw04_state =
  hw04_lastTime :: real
  S_Angle :: real
  E_Orb_Angle :: real
  E_Rot_Angle :: real
  M_Orb_Angle :: real
  M_Rot_Angle :: real

definition hw04_init :: hw04_state where
  "hw04_init = \<lparr>hw04_lastTime = 0, S_Angle = 0, E_Orb_Angle = 0, E_Rot_Angle = 0,
                M_Orb_Angle = 0, M_Rot_Angle = 0\<rparr>"

definition drawSquare :: "mat4 \<Rightarrow> rgba \<Rightarrow> gl_cmd list" where
  "drawSquare modelMatrix color =
     [UseProgram, SetMat4 ''u_model'' modelMatrix, SetVec4 ''u_color'' color,
      BindVertexArray, DrawElements 6]"

definition hw04_sun_model :: "hw04_state \<Rightarrow> mat4" where
  "hw04_sun_model s =
    (let model = mat4_create;
         model = mat4_rotate_out model model (S_Angle s) [0, 0, 1];
         model = mat4_scale model [0.2, 0.2, 1]
     in model)"

definition hw04_earth_model :: "hw04_state \<Rightarrow> mat4" where
  "hw04_earth_model s =
    (let model = mat4_create;
         model = mat4_rotate_out model model (E_Orb_Angle s) [0, 0, 1];
         model = mat4_translate_inplace model [0.7, 0, 0];
         model = mat4_rotate_out model model (E_Rot_Angle s) [0, 0, 1];
         model = mat4_scale model [0.1, 0.1, 1]
     in model)"

definition hw04_moon_model :: "hw04_state \<Rightarrow> mat4" where
  "hw04_moon_model s =
    (let moon = mat4_create;
         moon = mat4_rotate_out moon moon (E_Orb_Angle s) [0, 0, 1];
         moon = mat4_translate_inplace moon [0.7, 0, 0];
         moon = mat4_rotate_out moon moon (M_Orb_Angle s) [0, 0, 1];
         moon = mat4_translate_inplace moon [0.2, 0, 0];
         moon = mat4_rotate_out moon moon (M_Rot_Angle s) [0, 0, 1];
         moon = mat4_scale moon [0.05, 0.05, 1]
     in moon)"

definition hw04_render :: "hw04_state \<Rightarrow> gl_cmd list" where
  "hw04_render s =
     [Clear, DrawAxes] @
     drawSquare (hw04_sun_model s) (1, 0, 0, 1) @
     drawSquare (hw04_earth_model s) (0, 1, 1, 1) @
     drawSquare (hw04_moon_model s) (1, 1, 0, 1)"

definition hw04_animate :: "hw04_state \<Rightarrow> real \<Rightarrow> hw04_state \<times> gl_cmd list" where
  "hw04_animate s currentTime =
    (let s = (if hw04_lastTime s = 0 then s\<lparr>hw04_lastTime := currentTime\<rparr> else s);
         deltaTime = (currentTime - hw04_lastTime s) / 1000;
         s = s\<lparr>hw04_lastTime := currentTime\<rparr>;
         s = s\<lparr>S_Angle := S_Angle s + pi / 4 * deltaTime\<rparr>;
         s = s\<lparr>E_Orb_Angle := E_Orb_Angle s + pi / 6 * deltaTime\<rparr>;
         s = s\<lparr>E_Rot_Angle := E_Rot_Angle s + pi * deltaTime\<rparr>;
         s = s\<lparr>M_Orb_Angle := M_Orb_Angle s + 2 * pi * deltaTime\<rparr>;
         s = s\<lparr>M_Rot_Angle := M_Rot_Angle s + pi * deltaTime\<rparr>
     in (s, hw04_render s))"

fun hw04_run :: "hw04_state \<Rightarrow> real list \<Rightarrow> hw04_state" where
  "hw04_run s [] = s"
| "hw04_run s (t # ts) = hw04_run (fst (hw04_animate s t)) ts"

definition hw04_angles :: "hw04_state \<Rightarrow> angle_state" where
  "hw04_angles s =
     \<lparr>sunSpin = S_Angle s, earthSpin = E_Rot_Angle s, earthOrbit = E_Orb_Angle s,
      moonSpin = M_Rot_Angle s, moonOrbit = M_Orb_Angle s\<rparr>"

subsection \<open>Set-up\<close>

text \<open>HW04.js's own start-up code: \<open>initWebGL\<close>, \<open>initShader\<close>, \<open>main\<close> with its
  try/catch, and the mesh of \<open>setupBuffers\<close>; the event loop around them is the one
  of \<open>Lifecycle\<close>.\<close>

definition hw04_initWebGL :: "browser \<Rightarrow> bool" where
  "hw04_initWebGL b = has_webgl2 b"

definition hw04_initShader :: "browser \<Rightarrow> init_error + unit" where
  "hw04_initShader b = (if shaders_load b then Inr () else Inl ShaderInitFailed)"

definition hw04_main_try :: "browser \<Rightarrow> init_error + unit" where
  "hw04_main_try b = (if \<not> hw04_initWebGL b then Inl WebGLInitFailed else hw04_initShader b)"

definition hw04_main :: "browser \<Rightarrow> bool" where
  "hw04_main b = (case hw04_main_try b of Inl _ \<Rightarrow> False | Inr _ \<Rightarrow> True)"

definition hw04_DOMContentLoaded :: "'s app \<Rightarrow> browser \<Rightarrow> 's app" where
  "hw04_DOMContentLoaded a b =
     (if isInitialized a then a
      else if hw04_main b then a\<lparr>isInitialized := True, app_phase := Animating\<rparr>
      else a\<lparr>app_phase := Halted\<rparr>)"

definition cubeVertices :: "real list" where
  "cubeVertices = [-0.5, 0.5,  -0.5, -0.5,  0.5, -0.5,  0.5, 0.5]"

definition hw04_indices :: "nat list" where
  "hw04_indices = [0, 1, 2,  0, 2, 3]"


text \<open>The states the browser can drive HW04.js into: its own \<open>DOMContentLoaded\<close>
  handler, then frames with non-decreasing timestamps dispatched to its \<open>animate\<close> by
  the shared event loop.\<close>

inductive hw04_reachable :: "hw04_state app \<Rightarrow> bool" where
  start: "hw04_reachable (app_init hw04_init)"
| load: "hw04_reachable a \<Longrightarrow> hw04_reachable (hw04_DOMContentLoaded a b)"
| frame: "hw04_reachable a \<Longrightarrow> clock a \<le> t \<Longrightarrow>
     hw04_reachable (fst (app_step hw04_animate a (AnimationFrame t)))"

subsection \<open>The matrices render builds\<close>

lemma hw04_models:
  "hw04_sun_model h = mat4_multiply (rotz_mat (S_Angle h)) (scale_mat [0.2, 0.2, 1])"
  "hw04_earth_model h =
     mat4_multiply (mat4_multiply (mat4_multiply (rotz_mat (E_Orb_Angle h))
       (transl_mat [0.7, 0, 0])) (rotz_mat (E_Rot_Angle h))) (scale_mat [0.1, 0.1, 1])"
  "hw04_moon_model h =
     mat4_multiply (mat4_multiply (mat4_multiply (mat4_multiply (mat4_multiply
       (rotz_mat (E_Orb_Angle h)) (transl_mat [0.7, 0, 0]))
       (rotz_mat (M_Orb_Angle h))) (transl_mat [0.2, 0, 0]))
       (rotz_mat (M_Rot_Angle h))) (scale_mat [0.05, 0.05, 1])"
  by (simp_all add: hw04_sun_model_def hw04_earth_model_def hw04_moon_model_def Let_def
      mat4_translate_inplace_eq mat4_translate_mult mat4_scale_mult)




lemma hw04_models_lift:
  "mat4_mulv (hw04_sun_model h) (lift p) = lift (sun_tf (hw04_angles h) p)"
  "mat4_mulv (hw04_earth_model h) (lift p) = lift (earth_tf (hw04_angles h) p)"
  "mat4_mulv (hw04_moon_model h) (lift p) = lift (moon_tf (hw04_angles h) p)"
  by (simp_all add: hw04_models hw04_angles_def tf_defs)




text \<open>HW04.js's handler is the shared one: its \<open>main\<close> succeeds exactly when
  \<open>main\<close> of homework04.js does, so every state HW04.js reaches is reachable in the
  shared event loop with HW04.js's \<open>animate\<close>.\<close>

lemma hw04_DOMContentLoaded_step:
  "app_step anim a (DOMContentLoaded b) = (hw04_DOMContentLoaded a b, [])"
  by (simp add: hw04_DOMContentLoaded_def hw04_main_def main_result_def hw04_main_try_def main_try_def
      hw04_initWebGL_def initWebGL_def hw04_initShader_def initShader_def)

lemma hw04_reachable_app: "hw04_reachable a \<Longrightarrow> app_reachable hw04_animate hw04_init a"
proof (induction rule: hw04_reachable.induct)
  case start
  then show ?case by (rule app_reachable.start)
next
  case (load a b)
  then show ?case
    using app_reachable.load [OF load.IH, of b] by (simp only: hw04_DOMContentLoaded_step fst_conv)
next
  case (frame a t)
  show ?case using frame.IH frame.hyps(2) by (rule app_reachable.frame)
qed

lemma hw04_reachable_load_frame:
  "0 \<le> t \<Longrightarrow> hw04_reachable
     (fst (app_step hw04_animate (hw04_DOMContentLoaded (app_init hw04_init) b) (AnimationFrame t)))"
  by (rule hw04_reachable.frame [OF hw04_reachable.load [OF hw04_reachable.start]])
     (simp add: app_init_def hw04_DOMContentLoaded_def)

subsection \<open>Properties of HW04.js\<close>



text \<open>C30. homework04.js and HW04.js both test the previous timestamp with
  \<open>!lastTime\<close>: a first frame stamped 0 leaves \<open>lastTime\<close> at 0, so the next frame
  takes its own time as the previous one and the interval in between is lost; in neither
  submission do the bodies move, whatever time has passed.\<close>

theorem zero_timestamp_loses_interval:
  "homework04_angles (homework04_run homework04_init [0, t]) = zero_angles \<and>
   hw04_angles (hw04_run hw04_init [0, t]) = zero_angles"
proof
  show "homework04_angles (homework04_run homework04_init [0, t]) = zero_angles"
    by (simp add: homework04_animate_state homework04_angles_update homework04_init_def
        homework04_angles_def zero_angles_def advance_def)
  show "hw04_angles (hw04_run hw04_init [0, t]) = zero_angles"
    by (simp add: hw04_animate_def Let_def hw04_init_def hw04_angles_def zero_angles_def)
qed

text \<open>C28. Whatever its angles, every corner of the three quads HW04.js draws lies
  strictly inside the clip square.\<close>

theorem hw04_in_viewport:
  "list_all (\<lambda>p. in_clip (mat4_mulv (hw04_sun_model h) (lift p)) \<and>
                 in_clip (mat4_mulv (hw04_earth_model h) (lift p)) \<and>
                 in_clip (mat4_mulv (hw04_moon_model h) (lift p)))
     (attrib_pairs squareVertices)"
  using corners_small tf_in_clip [of _ "hw04_angles h"]
  by (simp add: hw04_models_lift list_all_iff)

end
