(* ===== verification/MainJs.thy ===== *)
theory MainJs
  imports Homework04 Lifecycle
begin

text \<open>
  \<open>src/Homework04_*/main.js\<close>. This submission keeps no angle state: \<open>render(time)\<close>
  converts the frame timestamp to seconds and computes every angle as rate times that
  absolute time. It places the earth and the moon by computing their centres with
  \<open>cos\<close> and \<open>sin\<close>, and \<open>drawObject\<close> builds each model matrix as translate, then
  \<open>rotateZ\<close> by the body's spin, then scale. The lemmas compare the scene with the
  contract: the centres of the earth agree at every time, the moon keeps its distance, and
  the moon's position and the earth's orientation agree with the contract's nested frames
  exactly at the times that are multiples of 4 seconds. The shader and mesh set-up of
  \<open>main\<close> is modelled in \<open>GpuBuffers\<close>; the fetch and compile steps are not.
\<close>

definition mainjs_model :: "real \<Rightarrow> real \<Rightarrow> vec3 \<Rightarrow> real \<Rightarrow> mat4" where
  "mainjs_model scale rotationSpeed translation time =
    (let model = mat4_create;
         model = mat4_translate_inplace model translation;
         model = mat4_rotateZ model (time * rotationSpeed);
         model = mat4_scale model [scale, scale, scale]
     in model)"

definition drawObject :: "real \<Rightarrow> real \<Rightarrow> vec3 \<Rightarrow> rgba \<Rightarrow> real \<Rightarrow> gl_cmd list" where
  "drawObject scale rotationSpeed translation color time =
     [SetMat4 ''u_model'' (mainjs_model scale rotationSpeed translation time),
      SetVec4 ''u_color'' color, DrawArrays 0 6]"

definition mainjs_earth_pos :: "real \<Rightarrow> real \<times> real" where
  "mainjs_earth_pos time =
    (let earthOrbit = 0.7; earthAngle = time * pi / 2
     in (earthOrbit * cos earthAngle, earthOrbit * sin earthAngle))"

definition mainjs_moon_pos :: "real \<Rightarrow> real \<times> real" where
  "mainjs_moon_pos time =
    (let (earthX, earthY) = mainjs_earth_pos time; moonOrbit = 0.2; moonAngle = time * 2 * pi
     in (earthX + moonOrbit * cos moonAngle, earthY + moonOrbit * sin moonAngle))"

definition mainjs_render :: "real \<Rightarrow> gl_cmd list" where
  "mainjs_render time0 =
    (let time = time0 * 0.001;
         (earthX, earthY) = mainjs_earth_pos time;
         (moonX, moonY) = mainjs_moon_pos time
     in [Clear] @
        drawObject 0.2 (pi / 4) [0, 0, 0] (1, 0, 0, 1) time @
        drawObject 0.1 pi [earthX, earthY, 0] (0, 1, 1, 1) time @
        drawObject 0.05 pi [moonX, moonY, 0] (1, 1, 0, 1) time)"

definition mainjs_vertices :: "real list" where
  "mainjs_vertices =
     [-0.5, -0.5, 0,  0.5, -0.5, 0,  -0.5, 0.5, 0,  -0.5, 0.5, 0,  0.5, -0.5, 0,  0.5, 0.5, 0]"

text \<open>\<open>gl.vertexAttribPointer(positionLoc, 3, gl.FLOAT, false, 0, 0)\<close>: the buffer is
  read three floats per vertex.\<close>

fun attrib_triples :: "real list \<Rightarrow> (real \<times> real \<times> real) list" where
  "attrib_triples (x # y # z # rest) = (x, y, z) # attrib_triples rest"
| "attrib_triples _ = []"

definition mainjs_rates :: rates where
  "mainjs_rates =
     \<lparr>sunSpinRate = pi / 4, earthSpinRate = pi, earthOrbitRate = pi / 2,
      moonSpinRate = pi, moonOrbitRate = 2 * pi\<rparr>"

subsection \<open>Facts\<close>

lemma mainjs_model_mult:
  "mainjs_model k w [x, y, 0] time =
     mat4_multiply (mat4_multiply (transl_mat [x, y, 0]) (rotz_mat (time * w))) (scale_mat [k, k, k])"
  by (simp add: mainjs_model_def Let_def mat4_translate_inplace_eq mat4_translate_mult
      mat4_rotateZ_mult mat4_scale_mult)

lemma mainjs_model_lift:
  "mat4_mulv (mainjs_model k w [x, y, 0] time) (lift p) =
     lift (transl x y (rot (time * w) (scl k p)))"
  by (simp add: mainjs_model_mult)

lemma mainjs_center: "mat_center (mainjs_model k w [x, y, 0] time) = (x, y)"
  using mat_center_tf [OF mainjs_model_lift] by (simp add: center_def)

lemma mainjs_render_draws:
  "drawn_quads ''u_model'' ''u_color'' u (mainjs_render time0) =
     [Some (mainjs_model 0.2 (pi / 4) [0, 0, 0] (time0 * 0.001), red),
      Some (mainjs_model 0.1 pi [fst (mainjs_earth_pos (time0 * 0.001)),
                                  snd (mainjs_earth_pos (time0 * 0.001)), 0] (time0 * 0.001), cyan),
      Some (mainjs_model 0.05 pi [fst (mainjs_moon_pos (time0 * 0.001)),
                                  snd (mainjs_moon_pos (time0 * 0.001)), 0] (time0 * 0.001), yellow)]"
  by (simp add: mainjs_render_def drawObject_def drawn_quads_def quad_of_def red_def cyan_def
      yellow_def split_def Let_def)

lemma mainjs_corners: "list_all (\<lambda>p. pnorm p \<le> 1) (map (\<lambda>(x, y, z). (x, y)) (attrib_triples mainjs_vertices))"
  by (simp add: mainjs_vertices_def pnorm_def power2_eq_square)

lemma mainjs_model_norm:
  "pnorm (transl x y (rot a (scl k p))) \<le> pnorm (x, y) + \<bar>k\<bar> * pnorm p"
  using pnorm_transl [of x y "rot a (scl k p)"] by (simp add: pnorm_scl)

lemma mainjs_earth_norm: "pnorm (mainjs_earth_pos t) = 0.7"
  using pnorm_polar [of "0.7" "t * pi / 2"] by (simp add: mainjs_earth_pos_def Let_def)

lemma mainjs_moon_norm: "pnorm (mainjs_moon_pos t) \<le> 0.9"
proof -
  have "mainjs_moon_pos t = transl (0.2 * cos (t * 2 * pi)) (0.2 * sin (t * 2 * pi)) (mainjs_earth_pos t)"
    by (simp add: mainjs_moon_pos_def split_def transl_def Let_def)
  then show ?thesis
    using pnorm_transl [of "0.2 * cos (t * 2 * pi)" "0.2 * sin (t * 2 * pi)" "mainjs_earth_pos t"]
      pnorm_polar [of "0.2" "t * 2 * pi"] by (simp add: mainjs_earth_norm)
qed

lemma mainjs_model_period:
  assumes "8 * w = real n * (2 * pi)"
  shows "mainjs_model k w v (t + 8) = mainjs_model k w v t"
proof -
  have e: "(t + 8) * w = t * w + 8 * w" by (simp add: algebra_simps)
  show ?thesis
    by (simp add: mainjs_model_def mat4_rotateZ_def Let_def e sin_cos_shift_period [OF assms])
qed

lemma mainjs_earth_pos_period: "mainjs_earth_pos (t + 8) = mainjs_earth_pos t"
proof -
  have e: "(t + 8) * pi / 2 = t * pi / 2 + real 2 * (2 * pi)" by (simp add: algebra_simps)
  show ?thesis by (simp add: mainjs_earth_pos_def Let_def e sin_cos_shift_period)
qed

lemma mainjs_moon_pos_period: "mainjs_moon_pos (t + 8) = mainjs_moon_pos t"
proof -
  have e: "(t + 8) * 2 * pi = t * 2 * pi + real 8 * (2 * pi)" by (simp add: algebra_simps)
  show ?thesis
    unfolding mainjs_moon_pos_def Let_def mainjs_earth_pos_period e sin_cos_plus_2npi ..
qed

subsection \<open>Properties of main.js\<close>

text \<open>C19. main.js places the moon at the earth's centre plus 0.2 in the direction of the
  moon's own absolute angle (\<open>time * 2\<pi>\<close>), while the contract's nested frames add the
  earth's orbit angle to it: the moon is where the contract puts it exactly at the page
  times (in seconds) that are whole multiples of 4, where the earth's orbit angle is a
  whole number of turns, and at no other time.\<close>

theorem mainjs_moon_matches_iff:
  "mainjs_moon_pos t = center (moon_tf (scaled_angles mainjs_rates t)) \<longleftrightarrow> (\<exists>n::int. t = 4 * real_of_int n)"
proof -
  have "mainjs_moon_pos t = center (moon_tf (scaled_angles mainjs_rates t)) \<longleftrightarrow>
        (cos (t * pi / 2 + t * (2 * pi)) = cos (t * 2 * pi) \<and> sin (t * pi / 2 + t * (2 * pi)) = sin (t * 2 * pi))"
    by (auto simp: moon_center mainjs_moon_pos_def mainjs_earth_pos_def scaled_angles_def mainjs_rates_def
        Let_def algebra_simps)
  also have "\<dots> \<longleftrightarrow> (\<exists>n::int. t * pi / 2 + t * (2 * pi) = t * 2 * pi + real_of_int n * 2 * pi)"
    by (rule unit_point_eq_iff)
  also have "\<dots> \<longleftrightarrow> (\<exists>n::int. t * pi / 2 = real_of_int n * 2 * pi)" by (simp add: algebra_simps)
  finally show ?thesis by (simp only: quarter_turns_iff)
qed

text \<open>C20. main.js translates the earth to its orbit position and then spins it about its own
  centre by \<open>time * \<pi>\<close>, so the quad does not turn with its orbit as in the contract's
  nested frames: the earth matrix maps every point as the contract's earth transform does
  exactly at the page times that are whole multiples of 4 seconds.\<close>

theorem mainjs_earth_matches_iff:
  "(\<forall>p. mat4_mulv (mainjs_model 0.1 pi [fst (mainjs_earth_pos t), snd (mainjs_earth_pos t), 0] t) (lift p) =
         lift (earth_tf (scaled_angles mainjs_rates t) p)) \<longleftrightarrow> (\<exists>n::int. t = 4 * real_of_int n)"
proof -
  have lhs: "mat4_mulv (mainjs_model 0.1 pi [fst (mainjs_earth_pos t), snd (mainjs_earth_pos t), 0] t) (lift p) =
        lift (transl (fst (mainjs_earth_pos t)) (snd (mainjs_earth_pos t)) (rot (t * pi) (scl 0.1 p)))" for p
    by (rule mainjs_model_lift)
  have eo: "earthOrbit (scaled_angles mainjs_rates t) = t * pi / 2"
    and es: "earthSpin (scaled_angles mainjs_rates t) = t * pi"
    by (simp_all add: scaled_angles_def mainjs_rates_def)
  have ep: "mainjs_earth_pos t = (0.7 * cos (t * pi / 2), 0.7 * sin (t * pi / 2))"
    by (simp add: mainjs_earth_pos_def Let_def)
  have rhs: "earth_tf (scaled_angles mainjs_rates t) p =
        transl (fst (mainjs_earth_pos t)) (snd (mainjs_earth_pos t)) (rot (t * pi / 2 + t * pi) (scl 0.1 p))" for p
    unfolding earth_tf_def earth_frame_def comp_def rot_transl rot_rot eo es ep by simp
  have "(\<forall>p. mat4_mulv (mainjs_model 0.1 pi [fst (mainjs_earth_pos t), snd (mainjs_earth_pos t), 0] t) (lift p) =
         lift (earth_tf (scaled_angles mainjs_rates t) p)) \<longleftrightarrow>
        (\<forall>p. rot (t * pi) (scl 0.1 p) = rot (t * pi / 2 + t * pi) (scl 0.1 p))"
    by (simp only: lhs rhs lift_inj transl_cancel)
  also have "\<dots> \<longleftrightarrow> (cos (t * pi / 2 + t * pi) = cos (t * pi) \<and> sin (t * pi / 2 + t * pi) = sin (t * pi))"
  proof
    assume "\<forall>p. rot (t * pi) (scl 0.1 p) = rot (t * pi / 2 + t * pi) (scl 0.1 p)"
    then have "rot (t * pi) (scl 0.1 (10, 0)) = rot (t * pi / 2 + t * pi) (scl 0.1 (10, 0))" by blast
    then show "cos (t * pi / 2 + t * pi) = cos (t * pi) \<and> sin (t * pi / 2 + t * pi) = sin (t * pi)"
      by (simp add: rot_def scl_def)
  next
    assume "cos (t * pi / 2 + t * pi) = cos (t * pi) \<and> sin (t * pi / 2 + t * pi) = sin (t * pi)"
    then show "\<forall>p. rot (t * pi) (scl 0.1 p) = rot (t * pi / 2 + t * pi) (scl 0.1 p)"
      by (simp add: rot_def split: prod.splits)
  qed
  also have "\<dots> \<longleftrightarrow> (\<exists>n::int. t * pi / 2 + t * pi = t * pi + real_of_int n * 2 * pi)"
    by (rule unit_point_eq_iff)
  also have "\<dots> \<longleftrightarrow> (\<exists>n::int. t * pi / 2 = real_of_int n * 2 * pi)" by (simp add: algebra_simps)
  finally show ?thesis by (simp only: quarter_turns_iff)
qed

text \<open>C21. In main.js the moon is always at distance exactly 0.2 from the earth.\<close>

theorem mainjs_moon_distance:
  "pdist (mainjs_moon_pos t) (mainjs_earth_pos t) = 0.2"
  using pnorm_polar [of "0.2" "t * 2 * pi"]
  by (simp add: mainjs_moon_pos_def pdist_def split_def Let_def)

text \<open>C17. main.js draws the sun and the earth centred where the contract puts them for angles
  equal to each rate times the page time in seconds, and the moon at its computed
  position.\<close>

theorem mainjs_render_centres:
  "map (map_option (mat_center \<circ> fst)) (drawn_quads ''u_model'' ''u_color'' u (mainjs_render t0)) =
     [Some (center (sun_tf (scaled_angles mainjs_rates (t0 * 0.001)))),
      Some (center (earth_tf (scaled_angles mainjs_rates (t0 * 0.001)))),
      Some (mainjs_moon_pos (t0 * 0.001))]"
proof -
  have m0: "mat_center (mainjs_model 0.2 (pi / 4) [0, 0, 0] tm) = (0, 0)" for tm
    by (rule mainjs_center)
  show ?thesis
    by (simp add: mainjs_render_draws mainjs_center m0 earth_center sun_center
        scaled_angles_def mainjs_rates_def mainjs_earth_pos_def Let_def algebra_simps)
qed

text \<open>C29. At every page time, every corner of the three quads main.js draws lies
  strictly inside the clip square.\<close>

theorem mainjs_in_viewport:
  "list_all (\<lambda>p. in_clip (mat4_mulv (mainjs_model 0.2 (pi / 4) [0, 0, 0] t) (lift p)) \<and>
      in_clip (mat4_mulv (mainjs_model 0.1 pi [fst (mainjs_earth_pos t), snd (mainjs_earth_pos t), 0] t) (lift p)) \<and>
      in_clip (mat4_mulv (mainjs_model 0.05 pi [fst (mainjs_moon_pos t), snd (mainjs_moon_pos t), 0] t) (lift p)))
     (map (\<lambda>(x, y, z). (x, y)) (attrib_triples mainjs_vertices))"
proof -
  have "pnorm p \<le> 1 \<Longrightarrow>
      in_clip (mat4_mulv (mainjs_model 0.2 (pi / 4) [0, 0, 0] t) (lift p)) \<and>
      in_clip (mat4_mulv (mainjs_model 0.1 pi [fst (mainjs_earth_pos t), snd (mainjs_earth_pos t), 0] t) (lift p)) \<and>
      in_clip (mat4_mulv (mainjs_model 0.05 pi [fst (mainjs_moon_pos t), snd (mainjs_moon_pos t), 0] t) (lift p))" for p
  proof -
    assume p: "pnorm p \<le> 1"
    have s: "pnorm (transl 0 0 (rot (t * (pi / 4)) (scl 0.2 p))) < 1"
      using mainjs_model_norm [of 0 0 "t * (pi / 4)" "0.2" p] p by (simp add: pnorm_def)
    have e: "pnorm (transl (fst (mainjs_earth_pos t)) (snd (mainjs_earth_pos t)) (rot (t * pi) (scl 0.1 p))) < 1"
      using mainjs_model_norm [of "fst (mainjs_earth_pos t)" "snd (mainjs_earth_pos t)" "t * pi" "0.1" p] p
        mainjs_earth_norm [of t] by simp
    have m: "pnorm (transl (fst (mainjs_moon_pos t)) (snd (mainjs_moon_pos t)) (rot (t * pi) (scl 0.05 p))) < 1"
      using mainjs_model_norm [of "fst (mainjs_moon_pos t)" "snd (mainjs_moon_pos t)" "t * pi" "0.05" p] p
        mainjs_moon_norm [of t] by simp
    show ?thesis using s e m by (simp add: mainjs_model_lift in_clip_lift)
  qed
  with mainjs_corners show ?thesis by (simp add: list_all_iff)
qed

text \<open>C22. main.js computes every angle from the absolute page time, and eight seconds are
  a whole number of turns for each of its rates (sun spin 1, earth spin and moon spin 4,
  earth orbit 2, moon orbit 8): \<open>render(time + 8000)\<close> issues exactly the WebGL calls of
  \<open>render(time)\<close>.\<close>

theorem mainjs_render_period: "mainjs_render (time0 + 8000) = mainjs_render time0"
proof -
  have e: "(time0 + 8000) * 0.001 = time0 * 0.001 + 8" by simp
  have s: "8 * (pi / 4) = real 1 * (2 * pi)" "8 * pi = real 4 * (2 * pi)" by simp_all
  show ?thesis
    unfolding mainjs_render_def drawObject_def Let_def e mainjs_earth_pos_period
      mainjs_moon_pos_period mainjs_model_period [OF s(1)] mainjs_model_period [OF s(2)] ..
qed

end
