(* ===== verification/MatrixStore.thy ===== *)
theory MatrixStore
  imports HW04 MainJs
begin

text \<open>
  gl-matrix's operations write their result into the \<open>out\<close> array element by element,
  and the submissions pass the same array as \<open>out\<close> and as input (\<open>rotate(m, m, ...)\<close>).
  This theory models the arrays as cells of a matrix store \<open>'c \<Rightarrow> mat4\<close> and each
  operation as the sequence of element writes the library performs, each read taken from the
  store at the moment the library reads it. The lemmas show that every operation leaves in
  \<open>out\<close> exactly the functional result of \<open>GlMatrix\<close>, whether or not \<open>out\<close> aliases an
  input, and that the in-place code of the three submissions (homework04.js's
  \<open>updateTransforms\<close>, HW04.js's \<open>render\<close>, main.js's \<open>drawObject\<close>) run on the
  store computes the matrices of the functional model.
\<close>

type_synonym 'c store = "'c \<Rightarrow> mat4"

definition st_set :: "'c store \<Rightarrow> 'c \<Rightarrow> nat \<Rightarrow> real \<Rightarrow> 'c store" where
  "st_set h p i v = h(p := (h p)[i := v])"

definition st_create :: "'c \<Rightarrow> 'c store \<Rightarrow> 'c store" where
  "st_create p h = h(p := mat4_create)"

definition st_rotate :: "'c \<Rightarrow> 'c \<Rightarrow> real \<Rightarrow> vec3 \<Rightarrow> 'c store \<Rightarrow> 'c store" where
  "st_rotate out a rad axis h =
    (let x = axis!0; y = axis!1; z = axis!2;
         len = sqrt (x * x + y * y + z * z)
     in if len < EPSILON then h
        else
          (let len = 1 / len; x = x * len; y = y * len; z = z * len;
               s = sin rad; c = cos rad; t = 1 - c;
               a00 = h a!0; a01 = h a!1; a02 = h a!2; a03 = h a!3;
               a10 = h a!4; a11 = h a!5; a12 = h a!6; a13 = h a!7;
               a20 = h a!8; a21 = h a!9; a22 = h a!10; a23 = h a!11;
               b00 = x * x * t + c; b01 = y * x * t + z * s; b02 = z * x * t - y * s;
               b10 = x * y * t - z * s; b11 = y * y * t + c; b12 = z * y * t + x * s;
               b20 = x * z * t + y * s; b21 = y * z * t - x * s; b22 = z * z * t + c;
               h = st_set h out 0 (a00 * b00 + a10 * b01 + a20 * b02);
               h = st_set h out 1 (a01 * b00 + a11 * b01 + a21 * b02);
               h = st_set h out 2 (a02 * b00 + a12 * b01 + a22 * b02);
               h = st_set h out 3 (a03 * b00 + a13 * b01 + a23 * b02);
               h = st_set h out 4 (a00 * b10 + a10 * b11 + a20 * b12);
               h = st_set h out 5 (a01 * b10 + a11 * b11 + a21 * b12);
               h = st_set h out 6 (a02 * b10 + a12 * b11 + a22 * b12);
               h = st_set h out 7 (a03 * b10 + a13 * b11 + a23 * b12);
               h = st_set h out 8 (a00 * b20 + a10 * b21 + a20 * b22);
               h = st_set h out 9 (a01 * b20 + a11 * b21 + a21 * b22);
               h = st_set h out 10 (a02 * b20 + a12 * b21 + a22 * b22);
               h = st_set h out 11 (a03 * b20 + a13 * b21 + a23 * b22)
           in if a \<noteq> out
              then (let h = st_set h out 12 (h a!12); h = st_set h out 13 (h a!13);
                        h = st_set h out 14 (h a!14)
                    in st_set h out 15 (h a!15))
              else h))"

definition st_scale :: "'c \<Rightarrow> 'c \<Rightarrow> vec3 \<Rightarrow> 'c store \<Rightarrow> 'c store" where
  "st_scale out a v h =
    (let x = v!0; y = v!1; z = v!2;
         h = st_set h out 0 (h a!0 * x); h = st_set h out 1 (h a!1 * x);
         h = st_set h out 2 (h a!2 * x); h = st_set h out 3 (h a!3 * x);
         h = st_set h out 4 (h a!4 * y); h = st_set h out 5 (h a!5 * y);
         h = st_set h out 6 (h a!6 * y); h = st_set h out 7 (h a!7 * y);
         h = st_set h out 8 (h a!8 * z); h = st_set h out 9 (h a!9 * z);
         h = st_set h out 10 (h a!10 * z); h = st_set h out 11 (h a!11 * z);
         h = st_set h out 12 (h a!12); h = st_set h out 13 (h a!13);
         h = st_set h out 14 (h a!14)
     in st_set h out 15 (h a!15))"

text \<open>\<open>rotateZ\<close> caches the first two columns of \<open>a\<close>, copies the last two when
  \<open>a !== out\<close>, and only then writes the first two columns of \<open>out\<close>.\<close>

definition st_rotateZ :: "'c \<Rightarrow> 'c \<Rightarrow> real \<Rightarrow> 'c store \<Rightarrow> 'c store" where
  "st_rotateZ out a rad h =
    (let s = sin rad; c = cos rad;
         a00 = h a!0; a01 = h a!1; a02 = h a!2; a03 = h a!3;
         a10 = h a!4; a11 = h a!5; a12 = h a!6; a13 = h a!7;
         h = (if a \<noteq> out
              then (let h = st_set h out 8 (h a!8); h = st_set h out 9 (h a!9);
                        h = st_set h out 10 (h a!10); h = st_set h out 11 (h a!11);
                        h = st_set h out 12 (h a!12); h = st_set h out 13 (h a!13);
                        h = st_set h out 14 (h a!14)
                    in st_set h out 15 (h a!15))
              else h);
         h = st_set h out 0 (a00 * c + a10 * s); h = st_set h out 1 (a01 * c + a11 * s);
         h = st_set h out 2 (a02 * c + a12 * s); h = st_set h out 3 (a03 * c + a13 * s);
         h = st_set h out 4 (a10 * c - a00 * s); h = st_set h out 5 (a11 * c - a01 * s);
         h = st_set h out 6 (a12 * c - a02 * s)
     in st_set h out 7 (a13 * c - a03 * s))"

definition st_translate :: "'c \<Rightarrow> 'c \<Rightarrow> vec3 \<Rightarrow> 'c store \<Rightarrow> 'c store" where
  "st_translate out a v h =
    (let x = v!0; y = v!1; z = v!2
     in if a = out then
          (let h = st_set h out 12 (h a!0 * x + h a!4 * y + h a!8 * z + h a!12);
               h = st_set h out 13 (h a!1 * x + h a!5 * y + h a!9 * z + h a!13);
               h = st_set h out 14 (h a!2 * x + h a!6 * y + h a!10 * z + h a!14)
           in st_set h out 15 (h a!3 * x + h a!7 * y + h a!11 * z + h a!15))
        else
          (let a00 = h a!0; a01 = h a!1; a02 = h a!2; a03 = h a!3;
               a10 = h a!4; a11 = h a!5; a12 = h a!6; a13 = h a!7;
               a20 = h a!8; a21 = h a!9; a22 = h a!10; a23 = h a!11;
               h = st_set h out 0 a00; h = st_set h out 1 a01;
               h = st_set h out 2 a02; h = st_set h out 3 a03;
               h = st_set h out 4 a10; h = st_set h out 5 a11;
               h = st_set h out 6 a12; h = st_set h out 7 a13;
               h = st_set h out 8 a20; h = st_set h out 9 a21;
               h = st_set h out 10 a22; h = st_set h out 11 a23;
               h = st_set h out 12 (a00 * x + a10 * y + a20 * z + h a!12);
               h = st_set h out 13 (a01 * x + a11 * y + a21 * z + h a!13);
               h = st_set h out 14 (a02 * x + a12 * y + a22 * z + h a!14)
           in st_set h out 15 (a03 * x + a13 * y + a23 * z + h a!15)))"

text \<open>\<open>multiply\<close> caches the sixteen entries of \<open>a\<close>, then four times reads one column
  of \<open>b\<close> (\<open>b0 = b[k]; ... b3 = b[k+3]\<close>) and writes the same column of \<open>out\<close>;
  \<open>st_mul_line\<close> is that repeated block, \<open>A\<close> the cached entries of \<open>a\<close>.\<close>

definition st_mul_line :: "'c \<Rightarrow> 'c \<Rightarrow> mat4 \<Rightarrow> nat \<Rightarrow> 'c store \<Rightarrow> 'c store" where
  "st_mul_line out b A k h =
    (let b0 = h b!k; b1 = h b!(k + 1); b2 = h b!(k + 2); b3 = h b!(k + 3);
         h = st_set h out k (b0 * A!0 + b1 * A!4 + b2 * A!8 + b3 * A!12);
         h = st_set h out (k + 1) (b0 * A!1 + b1 * A!5 + b2 * A!9 + b3 * A!13);
         h = st_set h out (k + 2) (b0 * A!2 + b1 * A!6 + b2 * A!10 + b3 * A!14)
     in st_set h out (k + 3) (b0 * A!3 + b1 * A!7 + b2 * A!11 + b3 * A!15))"

definition st_multiply :: "'c \<Rightarrow> 'c \<Rightarrow> 'c \<Rightarrow> 'c store \<Rightarrow> 'c store" where
  "st_multiply out a b h =
    (let A = h a;
         h = st_mul_line out b A 0 h; h = st_mul_line out b A 4 h; h = st_mul_line out b A 8 h
     in st_mul_line out b A 12 h)"

subsection \<open>homework04.js's updateTransforms on the store\<close>

text \<open>The arrays \<open>updateTransforms\<close> touches: the three module variables and the three
  \<open>const\<close> locals. \<open>x = mat4.create()\<close> binds a fresh identity array; as no other
  reference to the old array is ever read, it is the write of the identity into the
  variable's cell.\<close>

datatype cell = SunT | EarthT | MoonT | EarthOrbit | MoonOrbit | MoonBase

definition updateTransforms_store ::
  "real \<Rightarrow> homework04_state \<times> cell store \<Rightarrow> homework04_state \<times> cell store" where
  "updateTransforms_store deltaTime sh =
    (case sh of (s, h) \<Rightarrow>
      (let s = s\<lparr>sunRotation := sunRotation s + (45 * pi / 180) * deltaTime\<rparr>;
           s = s\<lparr>earthRotation := earthRotation s + (180 * pi / 180) * deltaTime\<rparr>;
           s = s\<lparr>earthRevolution := earthRevolution s + (30 * pi / 180) * deltaTime\<rparr>;
           s = s\<lparr>moonRotation := moonRotation s + (180 * pi / 180) * deltaTime\<rparr>;
           s = s\<lparr>moonRevolution := moonRevolution s + (360 * pi / 180) * deltaTime\<rparr>;
           h = st_create SunT h; h = st_create EarthT h; h = st_create MoonT h;
           h = st_rotate SunT SunT (sunRotation s) [0, 0, 1] h;
           h = st_scale SunT SunT [0.2, 0.2, 1] h;
           h = st_create EarthOrbit h;
           h = st_rotate EarthOrbit EarthOrbit (earthRevolution s) [0, 0, 1] h;
           h = st_translate EarthOrbit EarthOrbit [0.7, 0, 0] h;
           h = st_rotate EarthT EarthOrbit (earthRotation s) [0, 0, 1] h;
           h = st_scale EarthT EarthT [0.1, 0.1, 1] h;
           h = st_create MoonOrbit h;
           h = st_rotate MoonOrbit MoonOrbit (moonRevolution s) [0, 0, 1] h;
           h = st_translate MoonOrbit MoonOrbit [0.2, 0, 0] h;
           h = st_create MoonBase h;
           h = st_multiply MoonBase EarthOrbit MoonOrbit h;
           h = st_rotate MoonT MoonBase (moonRotation s) [0, 0, 1] h;
           h = st_scale MoonT MoonT [0.05, 0.05, 1] h
       in (s, h)))"

text \<open>The module state as the functional model sees it: the record with its three matrix
  variables read from their cells.\<close>

definition store_view :: "homework04_state \<times> cell store \<Rightarrow> homework04_state" where
  "store_view sh =
     (case sh of (s, h) \<Rightarrow>
        s\<lparr>sunTransform := h SunT, earthTransform := h EarthT, moonTransform := h MoonT\<rparr>)"

subsection \<open>HW04.js's render and main.js's drawObject on the store\<close>

text \<open>HW04.js's \<open>render\<close> reuses one array \<open>model\<close> for the sun and the earth (rebound
  to a fresh identity by \<open>model = mat4.create()\<close>) and a second one, \<open>moon\<close>, for the
  moon; \<open>drawSquare\<close> reads the array when it is called.\<close>

datatype hw04_cell = Model | Moon

definition hw04_render_store :: "hw04_state \<Rightarrow> hw04_cell store \<Rightarrow> gl_cmd list \<times> hw04_cell store" where
  "hw04_render_store s h =
    (let h = st_create Model h;
         h = st_rotate Model Model (S_Angle s) [0, 0, 1] h;
         h = st_scale Model Model [0.2, 0.2, 1] h;
         sun = drawSquare (h Model) (1, 0, 0, 1);
         h = st_create Model h;
         h = st_rotate Model Model (E_Orb_Angle s) [0, 0, 1] h;
         h = st_translate Model Model [0.7, 0, 0] h;
         h = st_rotate Model Model (E_Rot_Angle s) [0, 0, 1] h;
         h = st_scale Model Model [0.1, 0.1, 1] h;
         earth = drawSquare (h Model) (0, 1, 1, 1);
         h = st_create Moon h;
         h = st_rotate Moon Moon (E_Orb_Angle s) [0, 0, 1] h;
         h = st_translate Moon Moon [0.7, 0, 0] h;
         h = st_rotate Moon Moon (M_Orb_Angle s) [0, 0, 1] h;
         h = st_translate Moon Moon [0.2, 0, 0] h;
         h = st_rotate Moon Moon (M_Rot_Angle s) [0, 0, 1] h;
         h = st_scale Moon Moon [0.05, 0.05, 1] h;
         moon = drawSquare (h Moon) (1, 1, 0, 1)
     in ([Clear, DrawAxes] @ sun @ earth @ moon, h))"

text \<open>main.js's \<open>drawObject\<close>: a fresh \<open>const model\<close> in cell \<open>p\<close>, three in-place
  calls, then the upload of the array.\<close>

definition drawObject_store ::
  "'c \<Rightarrow> real \<Rightarrow> real \<Rightarrow> vec3 \<Rightarrow> rgba \<Rightarrow> real \<Rightarrow> 'c store \<Rightarrow> gl_cmd list \<times> 'c store" where
  "drawObject_store p scale rotationSpeed translation color time h =
    (let h = st_create p h;
         h = st_translate p p translation h;
         h = st_rotateZ p p (time * rotationSpeed) h;
         h = st_scale p p [scale, scale, scale] h
     in ([SetMat4 ''u_model'' (h p), SetVec4 ''u_color'' color, DrawArrays 0 6], h))"

definition mainjs_render_store :: "'c \<Rightarrow> real \<Rightarrow> 'c store \<Rightarrow> gl_cmd list \<times> 'c store" where
  "mainjs_render_store p time0 h =
    (let time = time0 * 0.001;
         (sun, h) = drawObject_store p 0.2 (pi / 4) [0, 0, 0] (1, 0, 0, 1) time h;
         (earthX, earthY) = mainjs_earth_pos time;
         (earth, h) = drawObject_store p 0.1 pi [earthX, earthY, 0] (0, 1, 1, 1) time h;
         (moonX, moonY) = mainjs_moon_pos time;
         (moon, h) = drawObject_store p 0.05 pi [moonX, moonY, 0] (1, 1, 0, 1) time h
     in ([Clear] @ sun @ earth @ moon, h))"

subsection \<open>Each operation writes its functional result, aliased or not\<close>

lemma fun_upd_idem_sym: "(f = f(x := y)) \<longleftrightarrow> f x = y"
  by (metis fun_upd_idem_iff)

lemma st_rotate_eq:
  assumes "mat4_wf (h a)" "mat4_wf (h out)"
  shows "st_rotate out a rad axis h = h(out := mat4_rotate_out (h out) (h a) rad axis)"
proof -
  from assms(2) obtain o0 o1 o2 o3 o4 o5 o6 o7 o8 o9 o10 o11 o12 o13 o14 o15
    where O: "h out = [o0, o1, o2, o3, o4, o5, o6, o7, o8, o9, o10, o11, o12, o13, o14, o15]"
    by (rule mat4_wf_cases)
  show ?thesis
  proof (cases "a = out")
    case True
    then show ?thesis
      by (simp add: st_rotate_def mat4_rotate_out_def mat4_rotate_def st_set_def O Let_def fun_upd_idem_sym)
  next
    case False
    from assms(1) obtain a0 a1 a2 a3 a4 a5 a6 a7 a8 a9 a10 a11 a12 a13 a14 a15
      where A: "h a = [a0, a1, a2, a3, a4, a5, a6, a7, a8, a9, a10, a11, a12, a13, a14, a15]"
      by (rule mat4_wf_cases)
    show ?thesis using False
      by (simp add: st_rotate_def mat4_rotate_out_def mat4_rotate_def st_set_def A O Let_def fun_upd_idem_sym)
  qed
qed

lemma st_scale_eq:
  assumes "mat4_wf (h a)" "mat4_wf (h out)"
  shows "st_scale out a v h = h(out := mat4_scale (h a) v)"
proof (cases "out = a")
  case True
  from assms(1) obtain a0 a1 a2 a3 a4 a5 a6 a7 a8 a9 a10 a11 a12 a13 a14 a15
    where A: "h a = [a0, a1, a2, a3, a4, a5, a6, a7, a8, a9, a10, a11, a12, a13, a14, a15]"
    by (rule mat4_wf_cases)
  show ?thesis using True by (simp add: st_scale_def mat4_scale_def st_set_def A Let_def)
next
  case False
  from assms(1) obtain a0 a1 a2 a3 a4 a5 a6 a7 a8 a9 a10 a11 a12 a13 a14 a15
    where A: "h a = [a0, a1, a2, a3, a4, a5, a6, a7, a8, a9, a10, a11, a12, a13, a14, a15]"
    by (rule mat4_wf_cases)
  from assms(2) obtain o0 o1 o2 o3 o4 o5 o6 o7 o8 o9 o10 o11 o12 o13 o14 o15
    where O: "h out = [o0, o1, o2, o3, o4, o5, o6, o7, o8, o9, o10, o11, o12, o13, o14, o15]"
    by (rule mat4_wf_cases)
  show ?thesis using False by (simp add: st_scale_def mat4_scale_def st_set_def A O Let_def)
qed

lemma st_translate_eq:
  assumes "mat4_wf (h a)" "mat4_wf (h out)"
  shows "st_translate out a v h = h(out := mat4_translate (h a) v)"
proof (cases "out = a")
  case True
  from assms(1) obtain a0 a1 a2 a3 a4 a5 a6 a7 a8 a9 a10 a11 a12 a13 a14 a15
    where A: "h a = [a0, a1, a2, a3, a4, a5, a6, a7, a8, a9, a10, a11, a12, a13, a14, a15]"
    by (rule mat4_wf_cases)
  show ?thesis using True by (simp add: st_translate_def mat4_translate_def st_set_def A Let_def)
next
  case False
  from assms(1) obtain a0 a1 a2 a3 a4 a5 a6 a7 a8 a9 a10 a11 a12 a13 a14 a15
    where A: "h a = [a0, a1, a2, a3, a4, a5, a6, a7, a8, a9, a10, a11, a12, a13, a14, a15]"
    by (rule mat4_wf_cases)
  from assms(2) obtain o0 o1 o2 o3 o4 o5 o6 o7 o8 o9 o10 o11 o12 o13 o14 o15
    where O: "h out = [o0, o1, o2, o3, o4, o5, o6, o7, o8, o9, o10, o11, o12, o13, o14, o15]"
    by (rule mat4_wf_cases)
  show ?thesis using False by (simp add: st_translate_def mat4_translate_def st_set_def A O Let_def)
qed

lemma st_rotateZ_eq:
  assumes "mat4_wf (h a)" "mat4_wf (h out)"
  shows "st_rotateZ out a rad h = h(out := mat4_rotateZ (h a) rad)"
proof (cases "out = a")
  case True
  from assms(1) obtain a0 a1 a2 a3 a4 a5 a6 a7 a8 a9 a10 a11 a12 a13 a14 a15
    where A: "h a = [a0, a1, a2, a3, a4, a5, a6, a7, a8, a9, a10, a11, a12, a13, a14, a15]"
    by (rule mat4_wf_cases)
  show ?thesis using True by (simp add: st_rotateZ_def mat4_rotateZ_def st_set_def A Let_def)
next
  case False
  from assms(1) obtain a0 a1 a2 a3 a4 a5 a6 a7 a8 a9 a10 a11 a12 a13 a14 a15
    where A: "h a = [a0, a1, a2, a3, a4, a5, a6, a7, a8, a9, a10, a11, a12, a13, a14, a15]"
    by (rule mat4_wf_cases)
  from assms(2) obtain o0 o1 o2 o3 o4 o5 o6 o7 o8 o9 o10 o11 o12 o13 o14 o15
    where O: "h out = [o0, o1, o2, o3, o4, o5, o6, o7, o8, o9, o10, o11, o12, o13, o14, o15]"
    by (rule mat4_wf_cases)
  show ?thesis using False by (simp add: st_rotateZ_def mat4_rotateZ_def st_set_def A O Let_def)
qed

lemma st_mul_line_eq:
  "st_mul_line out b A k h =
     h(out := (h out)[k := h b!k * A!0 + h b!(k + 1) * A!4 + h b!(k + 2) * A!8 + h b!(k + 3) * A!12,
                      k + 1 := h b!k * A!1 + h b!(k + 1) * A!5 + h b!(k + 2) * A!9 + h b!(k + 3) * A!13,
                      k + 2 := h b!k * A!2 + h b!(k + 1) * A!6 + h b!(k + 2) * A!10 + h b!(k + 3) * A!14,
                      k + 3 := h b!k * A!3 + h b!(k + 1) * A!7 + h b!(k + 2) * A!11 + h b!(k + 3) * A!15])"
  by (simp add: st_mul_line_def st_set_def Let_def)

lemma st_multiply_eq:
  assumes "mat4_wf (h a)" "mat4_wf (h b)" "mat4_wf (h out)"
  shows "st_multiply out a b h = h(out := mat4_multiply (h a) (h b))"
proof -
  from assms(1) obtain a0 a1 a2 a3 a4 a5 a6 a7 a8 a9 a10 a11 a12 a13 a14 a15
    where A: "h a = [a0, a1, a2, a3, a4, a5, a6, a7, a8, a9, a10, a11, a12, a13, a14, a15]"
    by (rule mat4_wf_cases)
  from assms(2) obtain b0 b1 b2 b3 b4 b5 b6 b7 b8 b9 b10 b11 b12 b13 b14 b15
    where B: "h b = [b0, b1, b2, b3, b4, b5, b6, b7, b8, b9, b10, b11, b12, b13, b14, b15]"
    by (rule mat4_wf_cases)
  from assms(3) obtain o0 o1 o2 o3 o4 o5 o6 o7 o8 o9 o10 o11 o12 o13 o14 o15
    where O: "h out = [o0, o1, o2, o3, o4, o5, o6, o7, o8, o9, o10, o11, o12, o13, o14, o15]"
    by (rule mat4_wf_cases)
  show ?thesis
  proof (cases "out = b")
    case True
    then show ?thesis using B
      by (simp add: st_multiply_def st_mul_line_eq mat4_multiply_def A Let_def)
  next
    case False
    then show ?thesis
      by (simp add: st_multiply_def st_mul_line_eq mat4_multiply_def A B O Let_def)
  qed
qed

lemma st_rotate_degenerate:
  "sqrt (axis!0 * axis!0 + axis!1 * axis!1 + axis!2 * axis!2) < EPSILON \<Longrightarrow>
     st_rotate out a rad axis h = h"
  by (simp add: st_rotate_def Let_def)

lemmas st_ops_eq = st_rotate_eq st_scale_eq st_translate_eq st_multiply_eq st_rotateZ_eq

lemma drawObject_store_cmds:
  "fst (drawObject_store p k w v c t h) = drawObject k w v c t"
  by (simp add: drawObject_store_def drawObject_def mainjs_model_def st_create_def st_ops_eq
      mat4_translate_inplace_eq Let_def)

subsection \<open>Properties\<close>

text \<open>C2. Run on the matrix store, element write by element write with the aliasing of
  \<open>rotate(m, m, ...)\<close>, \<open>translate(m, m, ...)\<close> and \<open>scale(m, m, ...)\<close>,
  homework04.js's \<open>updateTransforms\<close> leaves in \<open>sunTransform\<close>,
  \<open>earthTransform\<close> and \<open>moonTransform\<close> the matrices of the functional model, and
  the same angles, whatever the store held before.\<close>

theorem updateTransforms_store_refines:
  "store_view (updateTransforms_store dt (s, h)) = updateTransforms dt (store_view (s, h))"
  by (simp add: updateTransforms_store_def store_view_def updateTransforms_def st_create_def
      st_ops_eq mat4_translate_inplace_eq Let_def)

text \<open>C6. Run on the store, with \<open>model\<close> reused for the sun and the earth and every
  call in place, HW04.js's \<open>render\<close> issues exactly the WebGL calls of the functional
  model: the same three matrices in the same colours.\<close>

theorem hw04_render_store_refines: "fst (hw04_render_store s h) = hw04_render s"
  by (simp add: hw04_render_store_def hw04_render_def hw04_sun_model_def hw04_earth_model_def
      hw04_moon_model_def st_create_def st_ops_eq mat4_translate_inplace_eq Let_def)

text \<open>C18. Run on the store, main.js's \<open>render(time)\<close> issues exactly the WebGL calls of
  the functional model: each \<open>drawObject\<close> call's in-place translate, \<open>rotateZ\<close> and
  scale on its fresh array upload the matrix \<open>mainjs_model\<close> computes, whatever the
  store held before.\<close>

theorem mainjs_render_store_refines: "fst (mainjs_render_store p time0 h) = mainjs_render time0"
  by (simp add: mainjs_render_store_def mainjs_render_def drawObject_store_cmds split_def Let_def)

end
