(* ===== verification/GpuBuffers.thy ===== *)
theory GpuBuffers
  imports HW04 MainJs
begin

text \<open>
  The GPU objects the submissions' set-up code creates and the draw calls of
  \<open>render\<close> read: buffers, the \<open>ARRAY_BUFFER\<close> binding, vertex array objects (VAOs) with
  their attribute pointer and element buffer, and the bound VAO. The WebGL calls are
  written as WebGL 2 defines them: the \<open>ELEMENT_ARRAY_BUFFER\<close> binding belongs to the bound
  VAO, \<open>vertexAttribPointer\<close> captures the buffer bound to \<open>ARRAY_BUFFER\<close> at the time
  of the call, and a call without the object it needs records \<open>INVALID_OPERATION\<close> and
  changes nothing. \<open>setupBuffers\<close> of each submission is a sequence of these calls, and
  \<open>gpu_run\<close> interprets a frame's WebGL calls (\<open>Homework04\<close>, \<open>HW04\<close>, \<open>MainJs\<close>)
  on the state the set-up leaves. The reference axes (\<open>util.js\<close>, not under \<open>src/\<close>)
  are a parameter that may create and bind objects of its own but leaves existing ones
  alone.
\<close>

datatype gl_error = INVALID_OPERATION

datatype buf_target = ARRAY_BUFFER | ELEMENT_ARRAY_BUFFER

datatype buf_data = NoData | Floats "real list" | Ushorts "nat list"

record vao_state =
  attrib_ptr :: "(nat \<times> nat) option"
  attrib_enabled :: bool
  element_buf :: "nat option"

definition empty_vao :: vao_state where
  "empty_vao = \<lparr>attrib_ptr = None, attrib_enabled = False, element_buf = None\<rparr>"

record gpu =
  gbuffers :: "nat \<Rightarrow> buf_data option"
  gvaos :: "nat \<Rightarrow> vao_state option"
  next_name :: nat
  array_buf :: "nat option"
  bound_vao :: "nat option"
  null_vao :: vao_state
  errors :: "gl_error list"

definition gl_fail :: "gpu \<Rightarrow> gpu" where
  "gl_fail g = g\<lparr>errors := errors g @ [INVALID_OPERATION]\<rparr>"

definition cur_vao :: "gpu \<Rightarrow> vao_state" where
  "cur_vao g =
     (case bound_vao g of None \<Rightarrow> null_vao g
      | Some n \<Rightarrow> (case gvaos g n of Some v \<Rightarrow> v | None \<Rightarrow> null_vao g))"

definition upd_vao :: "(vao_state \<Rightarrow> vao_state) \<Rightarrow> gpu \<Rightarrow> gpu" where
  "upd_vao f g =
     (case bound_vao g of None \<Rightarrow> g\<lparr>null_vao := f (null_vao g)\<rparr>
      | Some n \<Rightarrow> g\<lparr>gvaos := (gvaos g)(n \<mapsto> f (cur_vao g))\<rparr>)"

definition createBuffer :: "gpu \<Rightarrow> nat \<times> gpu" where
  "createBuffer g =
     (next_name g, g\<lparr>gbuffers := (gbuffers g)(next_name g \<mapsto> NoData), next_name := Suc (next_name g)\<rparr>)"

definition createVertexArray :: "gpu \<Rightarrow> nat \<times> gpu" where
  "createVertexArray g =
     (next_name g, g\<lparr>gvaos := (gvaos g)(next_name g \<mapsto> empty_vao), next_name := Suc (next_name g)\<rparr>)"

definition bindVertexArray :: "nat option \<Rightarrow> gpu \<Rightarrow> gpu" where
  "bindVertexArray v g =
     (case v of None \<Rightarrow> g\<lparr>bound_vao := None\<rparr>
      | Some n \<Rightarrow> if gvaos g n = None then gl_fail g else g\<lparr>bound_vao := Some n\<rparr>)"

definition bindBuffer :: "buf_target \<Rightarrow> nat \<Rightarrow> gpu \<Rightarrow> gpu" where
  "bindBuffer t b g =
     (if gbuffers g b = None then gl_fail g
      else case t of ARRAY_BUFFER \<Rightarrow> g\<lparr>array_buf := Some b\<rparr>
        | ELEMENT_ARRAY_BUFFER \<Rightarrow> upd_vao (\<lambda>v. v\<lparr>element_buf := Some b\<rparr>) g)"

definition bufferData :: "buf_target \<Rightarrow> buf_data \<Rightarrow> gpu \<Rightarrow> gpu" where
  "bufferData t d g =
     (case (case t of ARRAY_BUFFER \<Rightarrow> array_buf g | ELEMENT_ARRAY_BUFFER \<Rightarrow> element_buf (cur_vao g)) of
        None \<Rightarrow> gl_fail g
      | Some b \<Rightarrow> g\<lparr>gbuffers := (gbuffers g)(b \<mapsto> d)\<rparr>)"

definition enableVertexAttribArray :: "gpu \<Rightarrow> gpu" where
  "enableVertexAttribArray g = upd_vao (\<lambda>v. v\<lparr>attrib_enabled := True\<rparr>) g"

definition vertexAttribPointer :: "nat \<Rightarrow> gpu \<Rightarrow> gpu" where
  "vertexAttribPointer sz g =
     (case array_buf g of None \<Rightarrow> gl_fail g
      | Some b \<Rightarrow> upd_vao (\<lambda>v. v\<lparr>attrib_ptr := Some (b, sz)\<rparr>) g)"

text \<open>\<open>shader.setAttribPointer(name, size, ...)\<close> of \<open>shader.js\<close>: looks up the
  attribute, enables it and points it at the bound array buffer.\<close>

definition setAttribPointer :: "nat \<Rightarrow> gpu \<Rightarrow> gpu" where
  "setAttribPointer sz g = vertexAttribPointer sz (enableVertexAttribArray g)"

text \<open>The vertices the bound VAO feeds the vertex shader: the attribute buffer read
  \<open>sz\<close> floats per vertex; a two-component attribute gets \<open>z = 0\<close>.\<close>

definition gpu_vertices :: "gpu \<Rightarrow> (real \<times> real \<times> real) list option" where
  "gpu_vertices g =
     (let v = cur_vao g
      in if \<not> attrib_enabled v then None
         else case attrib_ptr v of None \<Rightarrow> None
           | Some (b, sz) \<Rightarrow>
               (case gbuffers g b of
                  Some (Floats vs) \<Rightarrow>
                    if sz = 2 then Some (map (\<lambda>(x, y). (x, y, 0)) (attrib_pairs vs))
                    else if sz = 3 then Some (attrib_triples vs) else None
                | _ \<Rightarrow> None))"

definition gpu_drawElements :: "nat \<Rightarrow> gpu \<Rightarrow> (real \<times> real \<times> real) list option" where
  "gpu_drawElements count g =
     (case (gpu_vertices g, element_buf (cur_vao g)) of
        (Some verts, Some e) \<Rightarrow>
          (case gbuffers g e of
             Some (Ushorts idx) \<Rightarrow>
               if count \<le> length idx \<and> (\<forall>i \<in> set (take count idx). i < length verts)
               then Some (map ((!) verts) (take count idx)) else None
           | _ \<Rightarrow> None)
      | _ \<Rightarrow> None)"

definition gpu_drawArrays :: "nat \<Rightarrow> nat \<Rightarrow> gpu \<Rightarrow> (real \<times> real \<times> real) list option" where
  "gpu_drawArrays first count g =
     (case gpu_vertices g of
        Some verts \<Rightarrow> if first + count \<le> length verts then Some (take count (drop first verts)) else None
      | None \<Rightarrow> None)"

text \<open>A frame's WebGL calls on the GPU: \<open>BindVertexArray\<close> binds the submission's
  \<open>vao\<close> (a module variable, \<open>None\<close> while still undefined), \<open>DrawAxes\<close> runs the axes' draw \<open>ax\<close>, and each draw call yields the
  vertices it assembles (\<open>None\<close>: nothing drawn).\<close>

fun gpu_run :: "(gpu \<Rightarrow> gpu) \<Rightarrow> nat option \<Rightarrow> gpu \<Rightarrow> gl_cmd list \<Rightarrow> (real \<times> real \<times> real) list option list" where
  "gpu_run ax vao g [] = []"
| "gpu_run ax vao g (DrawAxes # cs) = gpu_run ax vao (ax g) cs"
| "gpu_run ax vao g (BindVertexArray # cs) = gpu_run ax vao (bindVertexArray vao g) cs"
| "gpu_run ax vao g (DrawElements n # cs) = gpu_drawElements n g # gpu_run ax vao g cs"
| "gpu_run ax vao g (DrawArrays f n # cs) = gpu_drawArrays f n g # gpu_run ax vao g cs"
| "gpu_run ax vao g (c # cs) = gpu_run ax vao g cs"

text \<open>The context after the frame: a draw call that fails records \<open>INVALID_OPERATION\<close>.\<close>

fun gpu_final :: "(gpu \<Rightarrow> gpu) \<Rightarrow> nat option \<Rightarrow> gpu \<Rightarrow> gl_cmd list \<Rightarrow> gpu" where
  "gpu_final ax vao g [] = g"
| "gpu_final ax vao g (DrawAxes # cs) = gpu_final ax vao (ax g) cs"
| "gpu_final ax vao g (BindVertexArray # cs) = gpu_final ax vao (bindVertexArray vao g) cs"
| "gpu_final ax vao g (DrawElements n # cs) =
     gpu_final ax vao (if gpu_drawElements n g = None then gl_fail g else g) cs"
| "gpu_final ax vao g (DrawArrays f n # cs) =
     gpu_final ax vao (if gpu_drawArrays f n g = None then gl_fail g else g) cs"
| "gpu_final ax vao g (c # cs) = gpu_final ax vao g cs"

text \<open>The axes' draw may create, bind and fill objects of its own, but leaves every
  object that already exists as it was.\<close>

definition keeps_objects :: "(gpu \<Rightarrow> gpu) \<Rightarrow> bool" where
  "keeps_objects ax \<longleftrightarrow>
     (\<forall>g n. (gvaos g n \<noteq> None \<longrightarrow> gvaos (ax g) n = gvaos g n) \<and>
            (gbuffers g n \<noteq> None \<longrightarrow> gbuffers (ax g) n = gbuffers g n))"

subsection \<open>The set-up code\<close>

definition homework04_setupBuffers :: "gpu \<Rightarrow> nat \<times> gpu" where
  "homework04_setupBuffers g =
    (let (vao, g) = createVertexArray g;
         g = bindVertexArray (Some vao) g;
         (positionBuffer, g) = createBuffer g;
         g = bindBuffer ARRAY_BUFFER positionBuffer g;
         g = bufferData ARRAY_BUFFER (Floats squareVertices) g;
         g = setAttribPointer 2 g;
         (indexBuffer, g) = createBuffer g;
         g = bindBuffer ELEMENT_ARRAY_BUFFER indexBuffer g;
         g = bufferData ELEMENT_ARRAY_BUFFER (Ushorts square_indices) g;
         g = bindVertexArray None g
     in (vao, g))"

definition hw04_setupBuffers :: "gpu \<Rightarrow> nat \<times> gpu" where
  "hw04_setupBuffers g =
    (let (vao, g) = createVertexArray g;
         g = bindVertexArray (Some vao) g;
         (positionBuffer, g) = createBuffer g;
         g = bindBuffer ARRAY_BUFFER positionBuffer g;
         g = bufferData ARRAY_BUFFER (Floats cubeVertices) g;
         g = setAttribPointer 2 g;
         (indexBuffer, g) = createBuffer g;
         g = bindBuffer ELEMENT_ARRAY_BUFFER indexBuffer g;
         g = bufferData ELEMENT_ARRAY_BUFFER (Ushorts hw04_indices) g;
         g = bindVertexArray None g
     in (vao, g))"

text \<open>main.js uploads the vertices before it creates the VAO, then points the attribute
  (three floats per vertex) while the VAO is bound, and leaves it bound for \<open>render\<close>.\<close>

definition mainjs_setupBuffers :: "gpu \<Rightarrow> nat \<times> gpu" where
  "mainjs_setupBuffers g =
    (let (positionBuffer, g) = createBuffer g;
         g = bindBuffer ARRAY_BUFFER positionBuffer g;
         g = bufferData ARRAY_BUFFER (Floats mainjs_vertices) g;
         (vao, g) = createVertexArray g;
         g = bindVertexArray (Some vao) g;
         g = enableVertexAttribArray g;
         g = vertexAttribPointer 3 g;
         g = bindVertexArray (Some vao) g
     in (vao, g))"

text \<open>The context \<open>getContext('webgl2')\<close> returns: no objects, nothing bound.\<close>

definition gpu_fresh :: gpu where
  "gpu_fresh = \<lparr>gbuffers = Map.empty, gvaos = Map.empty, next_name = 1, array_buf = None,
                bound_vao = None, null_vao = empty_vao, errors = []\<rparr>"

subsection \<open>What the set-up leaves\<close>

definition square_vao :: "nat \<Rightarrow> nat \<Rightarrow> nat option \<Rightarrow> vao_state" where
  "square_vao pb sz ib = \<lparr>attrib_ptr = Some (pb, sz), attrib_enabled = True, element_buf = ib\<rparr>"

lemma gl_calls_ok:
  "gvaos g n = Some v \<Longrightarrow> bindVertexArray (Some n) g = g\<lparr>bound_vao := Some n\<rparr>"
  "bindVertexArray None g = g\<lparr>bound_vao := None\<rparr>"
  "gbuffers g b = Some d \<Longrightarrow> bindBuffer ARRAY_BUFFER b g = g\<lparr>array_buf := Some b\<rparr>"
  "gbuffers g b = Some d \<Longrightarrow> bound_vao g = Some n \<Longrightarrow> gvaos g n = Some v \<Longrightarrow>
     bindBuffer ELEMENT_ARRAY_BUFFER b g = g\<lparr>gvaos := (gvaos g)(n \<mapsto> v\<lparr>element_buf := Some b\<rparr>)\<rparr>"
  "array_buf g = Some b \<Longrightarrow> bufferData ARRAY_BUFFER d' g = g\<lparr>gbuffers := (gbuffers g)(b \<mapsto> d')\<rparr>"
  "bound_vao g = Some n \<Longrightarrow> gvaos g n = Some v \<Longrightarrow> element_buf v = Some b \<Longrightarrow>
     bufferData ELEMENT_ARRAY_BUFFER d' g = g\<lparr>gbuffers := (gbuffers g)(b \<mapsto> d')\<rparr>"
  "bound_vao g = Some n \<Longrightarrow> gvaos g n = Some v \<Longrightarrow>
     enableVertexAttribArray g = g\<lparr>gvaos := (gvaos g)(n \<mapsto> v\<lparr>attrib_enabled := True\<rparr>)\<rparr>"
  "array_buf g = Some b \<Longrightarrow> bound_vao g = Some n \<Longrightarrow> gvaos g n = Some v \<Longrightarrow>
     vertexAttribPointer sz g = g\<lparr>gvaos := (gvaos g)(n \<mapsto> v\<lparr>attrib_ptr := Some (b, sz)\<rparr>)\<rparr>"
  by (simp_all add: bindVertexArray_def bindBuffer_def bufferData_def enableVertexAttribArray_def
      vertexAttribPointer_def upd_vao_def cur_vao_def)

lemma homework04_setupBuffers_state:
  "fst (homework04_setupBuffers g) = next_name g \<and>
   errors (snd (homework04_setupBuffers g)) = errors g \<and>
   gvaos (snd (homework04_setupBuffers g)) (next_name g) =
     Some (square_vao (Suc (next_name g)) 2 (Some (Suc (Suc (next_name g))))) \<and>
   gbuffers (snd (homework04_setupBuffers g)) (Suc (next_name g)) = Some (Floats squareVertices) \<and>
   gbuffers (snd (homework04_setupBuffers g)) (Suc (Suc (next_name g))) = Some (Ushorts square_indices)"
  by (simp add: homework04_setupBuffers_def createVertexArray_def createBuffer_def setAttribPointer_def
      gl_calls_ok empty_vao_def square_vao_def Let_def)

lemma hw04_setupBuffers_state:
  "fst (hw04_setupBuffers g) = next_name g \<and>
   errors (snd (hw04_setupBuffers g)) = errors g \<and>
   gvaos (snd (hw04_setupBuffers g)) (next_name g) =
     Some (square_vao (Suc (next_name g)) 2 (Some (Suc (Suc (next_name g))))) \<and>
   gbuffers (snd (hw04_setupBuffers g)) (Suc (next_name g)) = Some (Floats cubeVertices) \<and>
   gbuffers (snd (hw04_setupBuffers g)) (Suc (Suc (next_name g))) = Some (Ushorts hw04_indices)"
  by (simp add: hw04_setupBuffers_def createVertexArray_def createBuffer_def setAttribPointer_def
      gl_calls_ok empty_vao_def square_vao_def Let_def)

lemma mainjs_setupBuffers_state:
  "fst (mainjs_setupBuffers g) = Suc (next_name g) \<and>
   errors (snd (mainjs_setupBuffers g)) = errors g \<and>
   bound_vao (snd (mainjs_setupBuffers g)) = Some (Suc (next_name g)) \<and>
   gvaos (snd (mainjs_setupBuffers g)) (Suc (next_name g)) = Some (square_vao (next_name g) 3 None) \<and>
   gbuffers (snd (mainjs_setupBuffers g)) (next_name g) = Some (Floats mainjs_vertices)"
  by (simp add: mainjs_setupBuffers_def createVertexArray_def createBuffer_def gl_calls_ok
      empty_vao_def square_vao_def Let_def)

lemma keeps_objectsD:
  assumes "keeps_objects ax"
  shows "gvaos g n = Some v \<Longrightarrow> gvaos (ax g) n = Some v"
    and "gbuffers g n = Some d \<Longrightarrow> gbuffers (ax g) n = Some d"
  using assms unfolding keeps_objects_def by auto

text \<open>A draw through a VAO set up with a two-float attribute and an index buffer reads
  the mesh \<open>drawElements\<close> selects (\<open>WebGL.draw_elements\<close>), flat at z = 0.\<close>

lemma gpu_drawElements_vao:
  assumes "bound_vao g = Some n" "gvaos g n = Some (square_vao pb 2 (Some ib))"
    "gbuffers g pb = Some (Floats vs)" "gbuffers g ib = Some (Ushorts idx)"
  shows "gpu_drawElements k g = map_option (map (\<lambda>(x, y). (x, y, 0))) (draw_elements (attrib_pairs vs) idx k)"
  using assms by (auto simp: gpu_drawElements_def gpu_vertices_def cur_vao_def square_vao_def
      draw_elements_def Let_def)

lemma gpu_drawArrays_vao:
  assumes "bound_vao g = Some n" "gvaos g n = Some (square_vao pb 3 ib)"
    "gbuffers g pb = Some (Floats vs)"
  shows "gpu_drawArrays first k g =
     (if first + k \<le> length (attrib_triples vs) then Some (take k (drop first (attrib_triples vs))) else None)"
  using assms by (simp add: gpu_drawArrays_def gpu_vertices_def cur_vao_def square_vao_def Let_def)

text \<open>After the axes' draw, \<open>bindVertexArray(vao)\<close> brings back the submission's VAO
  untouched, and a draw through it reads the uploaded mesh.\<close>

lemma axes_then_bind:
  assumes ax: "keeps_objects ax" and v: "gvaos g vao = Some (square_vao pb 2 (Some ib))"
    and p: "gbuffers g pb = Some (Floats vs)" and i: "gbuffers g ib = Some (Ushorts idx)"
  shows "bindVertexArray (Some vao) (ax g) = (ax g)\<lparr>bound_vao := Some vao\<rparr>"
    and "gpu_drawElements k ((ax g)\<lparr>bound_vao := Some vao\<rparr>) =
           map_option (map (\<lambda>(x, y). (x, y, 0))) (draw_elements (attrib_pairs vs) idx k)"
proof -
  have v': "gvaos (ax g) vao = Some (square_vao pb 2 (Some ib))" by (rule keeps_objectsD(1) [OF ax v])
  show "bindVertexArray (Some vao) (ax g) = (ax g)\<lparr>bound_vao := Some vao\<rparr>"
    using v' by (rule gl_calls_ok(1))
  show "gpu_drawElements k ((ax g)\<lparr>bound_vao := Some vao\<rparr>) =
          map_option (map (\<lambda>(x, y). (x, y, 0))) (draw_elements (attrib_pairs vs) idx k)"
    by (rule gpu_drawElements_vao [where n = vao and pb = pb and ib = ib])
       (simp_all add: v' keeps_objectsD(2) [OF ax p] keeps_objectsD(2) [OF ax i])
qed

text \<open>From a context holding the VAO of the square, a frame of homework04.js or of HW04.js
  draws the square three times, whatever the axes' draw does besides.\<close>

lemma homework04_render_vao:
  assumes ax: "keeps_objects ax" and v: "gvaos g vao = Some (square_vao pb 2 (Some ib))"
    and p: "gbuffers g pb = Some (Floats squareVertices)" and i: "gbuffers g ib = Some (Ushorts square_indices)"
  shows "gpu_run ax (Some vao) g (homework04_render s) = replicate 3 (Some [(-0.5, 0.5, 0), (-0.5, -0.5, 0), (0.5, -0.5, 0), (-0.5, 0.5, 0), (0.5, -0.5, 0), (0.5, 0.5, 0)])"
proof -
  have d: "gpu_drawElements 6 ((ax g)\<lparr>bound_vao := Some vao\<rparr>) = Some [(-0.5, 0.5, 0), (-0.5, -0.5, 0), (0.5, -0.5, 0), (-0.5, 0.5, 0), (0.5, -0.5, 0), (0.5, 0.5, 0)]"
    by (simp add: axes_then_bind(2) [OF ax v p i] draw_elements_def squareVertices_def square_indices_def)
  show ?thesis using d by (simp add: homework04_render_def axes_then_bind(1) [OF ax v p i] numeral_3_eq_3)
qed

lemma hw04_render_vao:
  assumes ax: "keeps_objects ax" and v: "gvaos g vao = Some (square_vao pb 2 (Some ib))"
    and p: "gbuffers g pb = Some (Floats cubeVertices)" and i: "gbuffers g ib = Some (Ushorts hw04_indices)"
  shows "gpu_run ax (Some vao) g (hw04_render h) = replicate 3 (Some [(-0.5, 0.5, 0), (-0.5, -0.5, 0), (0.5, -0.5, 0), (-0.5, 0.5, 0), (0.5, -0.5, 0), (0.5, 0.5, 0)])"
proof -
  have d: "gpu_drawElements 6 ((ax g)\<lparr>bound_vao := Some vao\<rparr>) = Some [(-0.5, 0.5, 0), (-0.5, -0.5, 0), (0.5, -0.5, 0), (-0.5, 0.5, 0), (0.5, -0.5, 0), (0.5, 0.5, 0)]"
    by (simp add: axes_then_bind(2) [OF ax v p i] draw_elements_def cubeVertices_def hw04_indices_def)
  have r: "bindVertexArray (Some vao) ((ax g)\<lparr>bound_vao := Some vao\<rparr>) = (ax g)\<lparr>bound_vao := Some vao\<rparr>"
    using keeps_objectsD(1) [OF ax v] by (simp add: gl_calls_ok(1))
  show ?thesis using d r by (simp add: hw04_render_def drawSquare_def axes_then_bind(1) [OF ax v p i] numeral_3_eq_3)
qed

text \<open>A frame's calls change no buffer and no VAO of the context, as long as the axes'
  draw leaves them alone.\<close>

lemma gpu_final_keeps:
  "keeps_objects ax \<Longrightarrow>
   (gvaos g n = Some v \<longrightarrow> gvaos (gpu_final ax vao g cs) n = Some v) \<and>
   (gbuffers g n = Some d \<longrightarrow> gbuffers (gpu_final ax vao g cs) n = Some d)"
  by (induction ax vao g cs rule: gpu_final.induct)
     (auto simp: keeps_objectsD bindVertexArray_def gl_fail_def split: option.splits)

subsection \<open>Properties\<close>

text \<open>C9. Set-up and render compose: after homework04.js's, or HW04.js's, \<open>setupBuffers\<close>
  (which records no WebGL error, whatever the GPU held before), each of the three draw calls
  of every frame's \<open>render\<close>, run after an axes draw that leaves existing objects alone,
  assembles the same six vertices: the two triangles of the square, flat at z = 0. The VAO
  keeps the index buffer bound during the set-up, and \<open>render\<close> binds it again after the
  axes.\<close>

theorem setupBuffers_render_square:
  assumes ax: "keeps_objects ax"
  shows "errors (snd (homework04_setupBuffers g)) = errors g \<and>
         gpu_run ax (Some (fst (homework04_setupBuffers g))) (snd (homework04_setupBuffers g))
           (homework04_render s) =
         replicate 3 (Some [(-0.5, 0.5, 0), (-0.5, -0.5, 0), (0.5, -0.5, 0),
                            (-0.5, 0.5, 0), (0.5, -0.5, 0), (0.5, 0.5, 0)]) \<and>
         errors (snd (hw04_setupBuffers g)) = errors g \<and>
         gpu_run ax (Some (fst (hw04_setupBuffers g))) (snd (hw04_setupBuffers g)) (hw04_render h) =
         replicate 3 (Some [(-0.5, 0.5, 0), (-0.5, -0.5, 0), (0.5, -0.5, 0),
                            (-0.5, 0.5, 0), (0.5, -0.5, 0), (0.5, 0.5, 0)])"
  using homework04_setupBuffers_state [of g] hw04_setupBuffers_state [of g]
    homework04_render_vao [OF ax, of "snd (homework04_setupBuffers g)" "next_name g"]
    hw04_render_vao [OF ax, of "snd (hw04_setupBuffers g)" "next_name g"]
  by simp

theorem setupBuffers_render_square_witness:
  "keeps_objects (\<lambda>g. g\<lparr>bound_vao := None\<rparr>) \<and>
   gpu_run (\<lambda>g. g\<lparr>bound_vao := None\<rparr>)
     (Some (fst (homework04_setupBuffers gpu_fresh)))
     (snd (homework04_setupBuffers gpu_fresh)) (homework04_render homework04_init) =
   replicate 3 (Some [(-0.5, 0.5, 0), (-0.5, -0.5, 0), (0.5, -0.5, 0),
                      (-0.5, 0.5, 0), (0.5, -0.5, 0), (0.5, 0.5, 0)])"
proof -
  have k: "keeps_objects (\<lambda>g. g\<lparr>bound_vao := None\<rparr>)" by (simp add: keeps_objects_def)
  show ?thesis using k setupBuffers_render_square [OF k, of gpu_fresh homework04_init]
    by simp
qed

text \<open>C10. main.js's set-up and render compose: the set-up records no WebGL error, and although
  the VAO is created after the vertices are uploaded, the attribute it records points at
  the position buffer (the \<open>ARRAY_BUFFER\<close> binding is global and captured by
  \<open>vertexAttribPointer\<close>); every \<open>drawArrays(TRIANGLES, 0, 6)\<close> of every frame then
  assembles the six uploaded vertices.\<close>

theorem mainjs_setupBuffers_render:
  "errors (snd (mainjs_setupBuffers g)) = errors g \<and>
   gpu_run ax (Some (fst (mainjs_setupBuffers g))) (snd (mainjs_setupBuffers g)) (mainjs_render time0) =
     replicate 3 (Some (attrib_triples mainjs_vertices))"
proof -
  note a = mainjs_setupBuffers_state [of g]
  have d: "gpu_drawArrays 0 6 (snd (mainjs_setupBuffers g)) = Some (attrib_triples mainjs_vertices)"
    using a by (simp add: gpu_drawArrays_vao mainjs_vertices_def)
  show ?thesis using a d by (simp add: mainjs_render_def drawObject_def split_def Let_def numeral_3_eq_3)
qed

end
