(* ===== verification/Pipeline.thy ===== *)
theory Pipeline
  imports GpuBuffers
begin

text \<open>
  homework04.js as one program: the app state of \<open>Lifecycle\<close>, the WebGL context of
  \<open>GpuBuffers\<close> and the module variable \<open>vao\<close>. The load handler runs \<open>main\<close>, whose
  \<open>try\<close> block, after \<open>initWebGL\<close> and \<open>initShader\<close>, calls \<open>setupBuffers\<close> and the
  \<open>Axes\<close> constructor on the context; each animation frame runs \<open>animate\<close> and executes
  the WebGL calls of its \<open>render\<close> on the context. The constructor and the draw of the axes
  (\<open>util.js\<close>) are parameters that leave existing objects alone. The lemmas show that the
  program's app state follows \<open>app_step\<close>, and that in every reachable state no draw call
  fails.
\<close>

definition homework04_main_gpu :: "(gpu \<Rightarrow> gpu) \<Rightarrow> browser \<Rightarrow> gpu \<Rightarrow> init_error + (nat \<times> gpu)" where
  "homework04_main_gpu newAxes b g =
     (case main_try b of
        Inl e \<Rightarrow> Inl e
      | Inr _ \<Rightarrow> (case homework04_setupBuffers g of (vao, g) \<Rightarrow> Inr (vao, newAxes g)))"

record 's program =
  p_app :: "'s app"
  p_ctx :: gpu
  p_vao :: "nat option"

definition homework04_program_init :: "gpu \<Rightarrow> homework04_state program" where
  "homework04_program_init g = \<lparr>p_app = app_init homework04_init, p_ctx = g, p_vao = None\<rparr>"

fun homework04_program_step ::
  "(gpu \<Rightarrow> gpu) \<Rightarrow> (gpu \<Rightarrow> gpu) \<Rightarrow> homework04_state program \<Rightarrow> event \<Rightarrow>
     homework04_state program \<times> (real \<times> real \<times> real) list option list" where
  "homework04_program_step newAxes drawAxes p (DOMContentLoaded b) =
     (if isInitialized (p_app p) then (p, [])
      else case homework04_main_gpu newAxes b (p_ctx p) of
        Inl _ \<Rightarrow> (p\<lparr>p_app := (p_app p)\<lparr>app_phase := Halted\<rparr>\<rparr>, [])
      | Inr (vao, g) \<Rightarrow>
          (p\<lparr>p_app := (p_app p)\<lparr>isInitialized := True, app_phase := Animating\<rparr>,
             p_ctx := g, p_vao := Some vao\<rparr>, []))"
| "homework04_program_step newAxes drawAxes p (AnimationFrame t) =
     (case app_step homework04_animate (p_app p) (AnimationFrame t) of (a', cmds) \<Rightarrow>
        (p\<lparr>p_app := a', p_ctx := gpu_final drawAxes (p_vao p) (p_ctx p) cmds\<rparr>,
         gpu_run drawAxes (p_vao p) (p_ctx p) cmds))"

inductive homework04_program_reachable ::
  "(gpu \<Rightarrow> gpu) \<Rightarrow> (gpu \<Rightarrow> gpu) \<Rightarrow> homework04_state program \<Rightarrow> bool" for newAxes drawAxes where
  start: "homework04_program_reachable newAxes drawAxes (homework04_program_init g)"
| step: "homework04_program_reachable newAxes drawAxes p \<Longrightarrow>
     homework04_program_reachable newAxes drawAxes (fst (homework04_program_step newAxes drawAxes p e))"

text \<open>While the app animates, \<open>vao\<close> names a VAO of the context that holds the square's
  vertices and indices as \<open>setupBuffers\<close> left them.\<close>

definition square_ready :: "homework04_state program \<Rightarrow> bool" where
  "square_ready p \<longleftrightarrow>
     (app_phase (p_app p) = Animating \<longrightarrow>
       (\<exists>vao. p_vao p = Some vao \<and>
          gvaos (p_ctx p) vao = Some (square_vao (Suc vao) 2 (Some (Suc (Suc vao)))) \<and>
          gbuffers (p_ctx p) (Suc vao) = Some (Floats squareVertices) \<and>
          gbuffers (p_ctx p) (Suc (Suc vao)) = Some (Ushorts square_indices)))"

subsection \<open>Facts\<close>

lemma homework04_main_gpu_result:
  "homework04_main_gpu newAxes b g =
     (if main_result b then Inr (fst (homework04_setupBuffers g), newAxes (snd (homework04_setupBuffers g)))
      else Inl (if has_webgl2 b then ShaderInitFailed else WebGLInitFailed))"
  by (auto simp: homework04_main_gpu_def main_result_def main_try_def initWebGL_def initShader_def
      split: prod.splits)

text \<open>The program's app state is the one of the shared event loop.\<close>

lemma homework04_program_app:
  "p_app (fst (homework04_program_step newAxes drawAxes p e)) = fst (app_step homework04_animate (p_app p) e)"
  by (cases e) (auto simp: homework04_main_gpu_result split: prod.splits)

lemma homework04_program_square_ready:
  assumes n: "keeps_objects newAxes" and d: "keeps_objects drawAxes"
    and r: "homework04_program_reachable newAxes drawAxes p"
  shows "square_ready p"
  using r
proof (induction rule: homework04_program_reachable.induct)
  case (start g)
  then show ?case by (simp add: square_ready_def homework04_program_init_def app_init_def)
next
  case (step p e)
  show ?case
  proof (cases e)
    case (DOMContentLoaded b)
    note su = homework04_setupBuffers_state [of "p_ctx p"]
    show ?thesis
    proof (cases "isInitialized (p_app p) \<or> \<not> main_result b")
      case True
      then show ?thesis using step.IH DOMContentLoaded
        by (auto simp: homework04_main_gpu_result square_ready_def)
    next
      case False
      then show ?thesis using DOMContentLoaded su keeps_objectsD [OF n]
        by (auto simp: homework04_main_gpu_result square_ready_def)
    qed
  next
    case (AnimationFrame t)
    obtain a' cmds where e: "app_step homework04_animate (p_app p) (AnimationFrame t) = (a', cmds)"
      by fastforce
    have ph: "app_phase a' = app_phase (p_app p)" using e by (auto split: if_splits prod.splits)
    show ?thesis using step.IH AnimationFrame e ph gpu_final_keeps [OF d]
      by (auto simp: square_ready_def)
  qed
qed

subsection \<open>Properties\<close>

text \<open>C11. No draw call of homework04.js ever fails: in every state the whole program can
  reach (any initial context, load events with any browser, frames at any time), the next
  animation frame issues exactly three draw calls, each assembling the two triangles of the
  square, when the app animates, and none otherwise. The constructor and the draw of the
  axes may create and bind objects of their own.\<close>

theorem homework04_program_draws:
  assumes "keeps_objects newAxes" and "keeps_objects drawAxes"
    and "homework04_program_reachable newAxes drawAxes p"
  shows "snd (homework04_program_step newAxes drawAxes p (AnimationFrame t)) =
     (if app_phase (p_app p) = Animating then replicate 3 (Some [(-0.5, 0.5, 0), (-0.5, -0.5, 0), (0.5, -0.5, 0), (-0.5, 0.5, 0), (0.5, -0.5, 0), (0.5, 0.5, 0)]) else [])"
proof (cases "app_phase (p_app p) = Animating")
  case True
  then obtain vao where v: "p_vao p = Some vao"
    and r: "gvaos (p_ctx p) vao = Some (square_vao (Suc vao) 2 (Some (Suc (Suc vao))))"
      "gbuffers (p_ctx p) (Suc vao) = Some (Floats squareVertices)"
      "gbuffers (p_ctx p) (Suc (Suc vao)) = Some (Ushorts square_indices)"
    using homework04_program_square_ready [OF assms] by (auto simp: square_ready_def)
  obtain s' cmds where e: "homework04_animate (scene (p_app p)) t = (s', cmds)" by fastforce
  have c: "cmds = homework04_render s'" using homework04_animate_render [of "scene (p_app p)" t] e by simp
  show ?thesis using True v e by (simp add: c homework04_render_vao [OF assms(2) r])
next
  case False
  then show ?thesis by simp
qed

theorem homework04_program_draws_witness:
  "keeps_objects (\<lambda>g. g\<lparr>bound_vao := None\<rparr>) \<and>
   homework04_program_reachable (\<lambda>g. g\<lparr>bound_vao := None\<rparr>) (\<lambda>g. g\<lparr>bound_vao := None\<rparr>)
     (fst (homework04_program_step (\<lambda>g. g\<lparr>bound_vao := None\<rparr>) (\<lambda>g. g\<lparr>bound_vao := None\<rparr>)
        (homework04_program_init gpu_fresh) (DOMContentLoaded \<lparr>has_webgl2 = True, shaders_load = True\<rparr>))) \<and>
   snd (homework04_program_step (\<lambda>g. g\<lparr>bound_vao := None\<rparr>) (\<lambda>g. g\<lparr>bound_vao := None\<rparr>)
     (fst (homework04_program_step (\<lambda>g. g\<lparr>bound_vao := None\<rparr>) (\<lambda>g. g\<lparr>bound_vao := None\<rparr>)
        (homework04_program_init gpu_fresh) (DOMContentLoaded \<lparr>has_webgl2 = True, shaders_load = True\<rparr>)))
     (AnimationFrame 1000)) = replicate 3 (Some [(-0.5, 0.5, 0), (-0.5, -0.5, 0), (0.5, -0.5, 0), (-0.5, 0.5, 0), (0.5, -0.5, 0), (0.5, 0.5, 0)])"
proof -
  let ?ax = "\<lambda>g. g\<lparr>bound_vao := None\<rparr>"
  have k: "keeps_objects ?ax" by (simp add: keeps_objects_def)
  have r: "homework04_program_reachable ?ax ?ax
     (fst (homework04_program_step ?ax ?ax (homework04_program_init gpu_fresh)
        (DOMContentLoaded \<lparr>has_webgl2 = True, shaders_load = True\<rparr>)))"
    by (rule homework04_program_reachable.step [OF homework04_program_reachable.start])
  have a: "app_phase (p_app (fst (homework04_program_step ?ax ?ax (homework04_program_init gpu_fresh)
        (DOMContentLoaded \<lparr>has_webgl2 = True, shaders_load = True\<rparr>)))) = Animating"
    by (simp only: homework04_program_app) (simp add: app_init_def homework04_program_init_def main_result_iff)
  show ?thesis using k r a homework04_program_draws [OF k k r, of 1000] by simp
qed

end
