(* ===== verification/Spec2Isabelle.thy ===== *)
theory Spec2Isabelle
  imports HW04 MainJs Lifecycle MatrixStore GpuBuffers Pipeline
begin

text \<open>
  A verification library for the three "solar system" WebGL submissions of
  wjmatthew16/homework: \<open>src/Homework04_*/homework04.js\<close>,
  \<open>src/Homework04_*/HW04.js\<close> and \<open>src/Homework04_*/main.js\<close>. Each draws a
  sun, an earth and a moon as squares; on every animation frame it advances the bodies'
  angles by rate times elapsed time and rebuilds their model matrices with the gl-matrix
  library (rotate, translate, scale, multiply), then issues WebGL calls that set the model
  matrix and the colour uniforms and draw the quad mesh.

  \<^bold>\<open>Theories.\<close>
  \<^item> \<open>Prelude\<close>: the model's types (\<open>mat4\<close> as a 16-entry real list in column-major
    order, \<open>vec3\<close>, \<open>vec4\<close>, points, colours), the fact collections \<open>mat4_len\<close> and
    \<open>mat4_mult\<close>, and shared facts on 16-entry lists and on sine and cosine.
  \<^item> \<open>GlMatrix\<close>: gl-matrix's \<open>mat4.create\<close>, \<open>multiply\<close>, \<open>rotate\<close> (with its
    \<open>null\<close> result on an axis shorter than \<open>EPSILON\<close>, and \<open>mat4_rotate_out\<close> for
    what the ignored-result statement leaves in \<open>out\<close>), \<open>rotateZ\<close>, \<open>translate\<close>
    (both its in-place and its copying branch), \<open>scale\<close>, and the shader's
    matrix-vector product \<open>mat4_mulv\<close>. The library is not under \<open>src/\<close>; these are
    written out entry by entry as the library computes them. The lemmas rewrite each
    operation as a product with an elementary matrix, prove associativity and the identity
    laws on well-formed (16-entry) matrices, and that a product acts on vectors as the
    composition of its factors; \<open>mat4_planar\<close> names the matrices of a 2D scene and is
    closed under products.
  \<^item> \<open>MatrixStore\<close>: the same operations as the sequence of element writes the library
    performs on its \<open>out\<close> array, over a store of arrays (\<open>'c \<Rightarrow> mat4\<close>), each read
    taken when the library takes it; \<open>st_rotate_eq\<close>, \<open>st_scale_eq\<close>,
    \<open>st_translate_eq\<close> and \<open>st_multiply_eq\<close> show that each leaves in \<open>out\<close> the
    functional result whether or not \<open>out\<close> is one of its inputs. homework04.js's
    \<open>updateTransforms\<close> runs on the six arrays it touches (\<open>cell\<close>) as
    \<open>updateTransforms_store\<close>, and \<open>store_view\<close> reads the module variables back;
    HW04.js's \<open>render\<close> (\<open>hw04_render_store\<close>, arrays \<open>model\<close> and \<open>moon\<close>) and
    main.js's \<open>drawObject\<close> and \<open>render\<close> (\<open>drawObject_store\<close>,
    \<open>mainjs_render_store\<close>, with \<open>rotateZ\<close> as \<open>st_rotateZ\<close>) run on it too.
  \<^item> \<open>OrbitalSpec\<close>: the spec's OrbitalSceneAnimator as an abstract contract: the angle
    record, \<open>advance\<close> with a rates parameter, and the sun, earth and moon transforms as
    maps of the plane (the moon's frame nested in the earth's orbital frame, not in its
    spin), with the bridge lemmas from the elementary matrices to plane rotations,
    translations and scalings.
  \<^item> \<open>WebGL\<close>: the rendering boundary: WebGL calls as a datatype, \<open>gl_exec\<close> running
    them against a uniform store that persists across draws, \<open>drawn_quads\<close> reading what
    each draw call draws, the quad mesh of \<open>setupBuffers\<close> and the index check of
    \<open>drawElements\<close>.
  \<^item> \<open>Homework04\<close>: homework04.js: the module state as a record, \<open>updateTransforms\<close>
    statement by statement, \<open>render\<close>, \<open>animate\<close> (with the \<open>!lastTime\<close> test) and
    the run of animation frames over a list of timestamps.
  \<^item> \<open>HW04\<close>: HW04.js: its state, \<open>drawSquare\<close>, the three model matrices \<open>render\<close>
    builds with in-place calls, \<open>animate\<close>, its own \<open>initWebGL\<close>, \<open>initShader\<close>,
    \<open>main\<close>, \<open>DOMContentLoaded\<close> handler and mesh, the states its handler and
    frames reach (\<open>hw04_reachable\<close>, embedded in the shared loop's by
    \<open>hw04_reachable_app\<close>), and the correspondence with homework04.js
    (\<open>hw04_corr\<close>), frame by frame and over runs.
  \<^item> \<open>MainJs\<close>: main.js: \<open>drawObject\<close> (translate, \<open>rotateZ\<close>, scale),
    \<open>render(time)\<close> with its absolute-time angles and explicit \<open>cos\<close>/\<open>sin\<close>
    positions, and its six-vertex mesh read three floats per vertex.
  \<^item> \<open>GpuBuffers\<close>: the WebGL objects behind the draw calls: buffers, vertex array
    objects with their attribute pointer and element buffer, the \<open>ARRAY_BUFFER\<close> and VAO
    bindings, and \<open>INVALID_OPERATION\<close> for a call without its object, with WebGL 2's
    rules (the element buffer binding belongs to the bound VAO, \<open>vertexAttribPointer\<close>
    captures the bound array buffer). Each submission's \<open>setupBuffers\<close> is the sequence
    of its calls, and \<open>gpu_run\<close> runs a frame's WebGL calls (the \<open>gl_cmd\<close> lists of
    the submission theories) on the state it leaves; the axes overlay's draw is a parameter
    constrained only to leave existing objects alone (\<open>keeps_objects\<close>).
  \<^item> \<open>Pipeline\<close>: homework04.js as one program: app state, WebGL context and the
    module variable \<open>vao\<close>. The load handler runs \<open>main\<close> with \<open>setupBuffers\<close> and
    the \<open>Axes\<close> constructor on the context (\<open>homework04_main_gpu\<close>), and each frame runs
    \<open>animate\<close> and executes its \<open>render\<close> calls on it (\<open>gpu_run\<close>, \<open>gpu_final\<close>);
    \<open>homework04_program_app\<close> shows its app state is the one of \<open>app_step\<close>, and
    \<open>square_ready\<close> is the invariant that the VAO of the square exists while animating.
  \<^item> \<open>Lifecycle\<close>: the start-up and event loop shared by homework04.js and HW04.js:
    \<open>initWebGL\<close>, \<open>initShader\<close> and \<open>main\<close>'s try/catch with errors as
    \<open>init_error + unit\<close>, the \<open>DOMContentLoaded\<close> handler with its
    \<open>isInitialized\<close> guard and the frame dispatch as \<open>app_step\<close>, generic in the
    submission's \<open>animate\<close>; \<open>app_reachable\<close> (inductive) lets the browser deliver
    the load event and frames in any order, frames with non-decreasing timestamps (spec
    section 6). \<open>app_reachable_inv\<close> lifts an invariant of an \<open>animate\<close> to all
    reachable states, and \<open>lockstep\<close>/\<open>lockstep_step\<close> state the frame-clock
    invariant once for any submission with angle accumulators: the previous timestamp is
    not after the host's clock and the angles are the rates times the seconds from the
    first counted frame to it.
  \<^item> This theory: the properties that span components (start-up and the reachable
    states of each submission).

  \<^bold>\<open>What is proved.\<close> For homework04.js: \<open>updateTransforms\<close> refines the
  contract's step (angles advanced by \<open>rate * dt\<close>, matrices equal to the contract's
  transforms as maps of the plane); the moon's matrix does not depend on the earth's spin
  and the moon stays at distance 0.2 from the earth; updates are linear and rebuild the
  matrices without drift; a repeated timestamp is a no-op; a run of frames accumulates
  rate times elapsed time; \<open>render\<close> draws exactly the three bodies' matrices, in order;
  every drawn corner stays inside the clip square. HW04.js draws the same matrices as
  homework04.js frame after frame and over any run of frames.
  Run on a store of arrays, with the aliasing of \<open>rotate(m, m, ...)\<close> and the other
  in-place calls, \<open>updateTransforms\<close> computes the functional model's matrices, and
  HW04.js's and main.js's \<open>render\<close> issue the functional model's WebGL calls (the
  spec's design note 9 on in-place mutation). main.js centres the sun and the earth as the contract
  does, keeps the moon at 0.2 from the earth, repeats its frames exactly every 8 seconds,
  and places the moon and orients the earth as the contract does exactly at the page
  times that are multiples of 4 seconds (\<open>mainjs_moon_matches_iff\<close>,
  \<open>mainjs_earth_matches_iff\<close>). In all three submissions every drawn
  corner stays inside the clip square, whatever the angles or the time (the moon reaches
  at most 0.9 plus half its diagonal from the origin). Across components: no frame draws before
  a successful start, the start succeeds exactly with WebGL 2 and loadable shaders; in
  every reachable state of homework04.js and of HW04.js (each through its own load
  handler) every angle is its rate times the seconds from the first counted frame to
  \<open>lastTime\<close>; the matrices of
  homework04.js are planar and show the current angles in every reachable state after
  the first frame. Set-up and render
  compose: after each submission's \<open>setupBuffers\<close>, which records no WebGL error, every
  draw call of every frame assembles the six vertices of the square from its VAO (for
  homework04.js and HW04.js whatever the axes' draw does to bindings). Composed into one program with
  its start-up and its WebGL context, homework04.js never issues a failing draw call: in
  every reachable state the next frame draws the square three times when animating and
  nothing otherwise.

  \<^bold>\<open>Where code and spec differ.\<close> At zero angles the earth's and moon's matrices
  carry their orbit translation (spec section 8 says pure scale); a first frame stamped 0
  makes the next frame lose its interval (homework04.js and HW04.js); main.js offsets the
  moon by its own angle only and does not turn the earth with its orbit (so it agrees
  with the contract only every 4 seconds) and derives its angles from the page time
  rather than from zero. The comments on homework04.js's colours (yellow, blue, gray)
  disagree with the colours it sets (red, cyan, yellow). Read from main.js's unmodelled
  shader set-up (below): it starts the animation even when shader compilation or linking
  fails (spec section 7), and on a missing WebGL 2 context throws inside its async
  \<open>main\<close>, whose rejection nobody handles, instead of reporting the failure to the
  host.

  \<^bold>\<open>Modelling choices.\<close> Numbers are exact reals: JavaScript doubles and the
  float32 entries of gl-matrix's arrays are not modelled, so the statements are about the
  arithmetic the code means, not about rounding (bit-identical results in the spec's
  sense become equalities of reals). The animation loop
  (\<open>requestAnimationFrame(animate)\<close> rescheduling itself) is a frame event of the
  reachability relations or a recursion over the timestamps the host delivers. Matrices are values in the submission theories and cells of a store in
  \<open>MatrixStore\<close>; GPU objects are named by numbers from a counter in \<open>GpuBuffers\<close>.

  \<^bold>\<open>Termination and fuel.\<close> The code has no loop but the animation chain, which is
  meant never to end; it is the frame events of the reachability relations and, over the
  timestamps the browser delivers, structural recursion (\<open>homework04_run\<close>,
  \<open>hw04_run\<close>). Every other definition is non-recursive or structurally recursive
  (\<open>attrib_pairs\<close>, \<open>attrib_triples\<close>, \<open>gl_exec\<close>, \<open>gpu_run\<close>), so all of
  them are total and no fuel or partial function is needed.

  The \<open>null\<close> branch of \<open>rotate\<close> (axis shorter than \<open>EPSILON\<close>) is modelled
  (\<open>mat4_rotate_None_iff\<close>, \<open>mat4_rotate_out_degenerate\<close>, and \<open>st_rotate\<close> returns
  the store unchanged) but dead in the submissions: every call passes the axis
  \<open>[0, 0, 1]\<close>, for which \<open>mat4_rotate_unit_z\<close> gives the product with
  \<open>rotz_mat\<close>.

  \<^bold>\<open>Not modelled.\<close> The whole-program composition of \<open>Pipeline\<close> is carried out
  for homework04.js; HW04.js and main.js have every ingredient (\<open>hw04_render_vao\<close>,
  \<open>mainjs_setupBuffers_state\<close>) but no composed program of their own. Beyond that,
  what is left of the three files is browser and GPU I/O: main.js's shader half
  (\<open>loadShaderSource\<close>, whose \<open>fetch\<close> resolves even on a 404, \<open>createShader\<close>,
  \<open>createProgram\<close>, lines 1-38) and the asynchronous rejection of its \<open>main\<close>;
  shader programs and their
  compilation, attribute and uniform locations, rasterisation and float32 rounding of the stored matrices (GPU and
  number-format behaviour below the API calls); \<open>Axes\<close>, \<open>resizeAspectRatio\<close>,
  \<open>Shader\<close> and \<open>readShaderFile\<close> beyond the effects stated above (\<open>util.js\<close> and
  \<open>shader.js\<close> are not under \<open>src/\<close>); canvas sizing, viewport and clear colour, which
  no property depends on.
\<close>

section \<open>Properties across components\<close>

text \<open>C23. Until \<open>main()\<close> has succeeded, an animation frame neither changes the app
  nor draws anything: in every reachable state the app animates exactly when
  \<open>isInitialized\<close> is set.\<close>

theorem app_no_frame_before_init:
  "app_reachable anim s0 a \<Longrightarrow> \<not> isInitialized a \<Longrightarrow> app_step anim a (AnimationFrame t) = (a, [])"
  using app_reachable_phase [of anim s0 a] by simp

theorem app_no_frame_before_init_witness:
  "app_reachable homework04_animate homework04_init (app_init homework04_init) \<and>
   \<not> isInitialized (app_init homework04_init) \<and>
   app_step homework04_animate (app_init homework04_init) (AnimationFrame 1000) =
     (app_init homework04_init, [])"
proof -
  have r: "app_reachable homework04_animate homework04_init (app_init homework04_init)"
    by (rule app_reachable.start)
  have i: "\<not> isInitialized (app_init homework04_init)" by (simp add: app_init_def)
  show ?thesis using r i app_no_frame_before_init [OF r i, of 1000] by simp
qed

text \<open>C24. The load event starts the animation exactly when the browser has a WebGL 2 context
  and the shaders load; otherwise \<open>main()\<close>'s catch reports false and the app halts,
  having drawn nothing.\<close>

theorem app_start_outcome:
  "app_step anim (app_init s0) (DOMContentLoaded b) =
     (if has_webgl2 b \<and> shaders_load b
      then ((app_init s0)\<lparr>isInitialized := True, app_phase := Animating\<rparr>, [])
      else ((app_init s0)\<lparr>app_phase := Halted\<rparr>, []))"
  by (simp add: app_init_def main_result_iff)

text \<open>C26. In every reachable state of homework04.js the three matrices show the current
  angles: rebuilding them with \<open>updateTransforms(0)\<close> changes nothing (the spec's
  \<open>advance(0)\<close> is a no-op and \<open>computeTransforms\<close> idempotent). The only exception
  is the state before the first frame, whose matrices are the identities of the module's
  initialisation, never drawn.\<close>

theorem homework04_reachable_synced:
  "app_reachable homework04_animate homework04_init a \<Longrightarrow>
   scene a = homework04_init \<or> updateTransforms 0 (scene a) = scene a"
proof -
  assume r: "app_reachable homework04_animate homework04_init a"
  show ?thesis
  proof (rule app_reachable_inv [OF r, where P = "\<lambda>c s. s = homework04_init \<or> updateTransforms 0 s = s"])
    fix c s t
    show "fst (homework04_animate s t) = homework04_init \<or>
          updateTransforms 0 (fst (homework04_animate s t)) = fst (homework04_animate s t)"
      by (simp add: homework04_animate_state updateTransforms_compose)
  qed simp
qed

theorem homework04_reachable_synced_witness:
  "app_reachable homework04_animate homework04_init
     (fst (app_step homework04_animate
       (fst (app_step homework04_animate (app_init homework04_init)
          (DOMContentLoaded \<lparr>has_webgl2 = True, shaders_load = True\<rparr>)))
       (AnimationFrame 1000))) \<and>
   (scene (fst (app_step homework04_animate
       (fst (app_step homework04_animate (app_init homework04_init)
          (DOMContentLoaded \<lparr>has_webgl2 = True, shaders_load = True\<rparr>)))
       (AnimationFrame 1000))) = homework04_init \<or>
    updateTransforms 0 (scene (fst (app_step homework04_animate
       (fst (app_step homework04_animate (app_init homework04_init)
          (DOMContentLoaded \<lparr>has_webgl2 = True, shaders_load = True\<rparr>)))
       (AnimationFrame 1000)))) =
    scene (fst (app_step homework04_animate
       (fst (app_step homework04_animate (app_init homework04_init)
          (DOMContentLoaded \<lparr>has_webgl2 = True, shaders_load = True\<rparr>)))
       (AnimationFrame 1000))))"
proof -
  have r: "app_reachable homework04_animate homework04_init
     (fst (app_step homework04_animate
       (fst (app_step homework04_animate (app_init homework04_init)
          (DOMContentLoaded \<lparr>has_webgl2 = True, shaders_load = True\<rparr>)))
       (AnimationFrame 1000)))"
    by (rule app_reachable_load_frame) simp
  show ?thesis using r homework04_reachable_synced [OF r] by blast
qed





text \<open>C31. In every state the browser can drive homework04.js into, the three model
  matrices are planar: 16 entries, the z row and column of the identity and the w row
  \<open>(0, 0, 0, 1)\<close>, so \<open>uniformMatrix4fv\<close> receives a full matrix and the vertex
  shader keeps every vertex at z = 0 and w = 1.\<close>

theorem homework04_reachable_planar:
  "app_reachable homework04_animate homework04_init a \<Longrightarrow>
   mat4_planar (sunTransform (scene a)) \<and> mat4_planar (earthTransform (scene a)) \<and>
   mat4_planar (moonTransform (scene a))"
proof -
  assume r: "app_reachable homework04_animate homework04_init a"
  show ?thesis
  proof (rule app_reachable_inv [OF r, where P = "\<lambda>c s. mat4_planar (sunTransform s) \<and>
      mat4_planar (earthTransform s) \<and> mat4_planar (moonTransform s)"])
    show "mat4_planar (sunTransform homework04_init) \<and> mat4_planar (earthTransform homework04_init) \<and>
          mat4_planar (moonTransform homework04_init)"
      by (simp add: homework04_init_def)
  next
    fix c s t
    show "mat4_planar (sunTransform (fst (homework04_animate s t))) \<and>
          mat4_planar (earthTransform (fst (homework04_animate s t))) \<and>
          mat4_planar (moonTransform (fst (homework04_animate s t)))"
      by (simp only: homework04_animate_state updateTransforms_planar)
  qed
qed

theorem homework04_reachable_planar_witness:
  "app_reachable homework04_animate homework04_init
     (fst (app_step homework04_animate
       (fst (app_step homework04_animate (app_init homework04_init)
          (DOMContentLoaded \<lparr>has_webgl2 = True, shaders_load = True\<rparr>)))
       (AnimationFrame 1000))) \<and>
   mat4_planar (moonTransform (scene (fst (app_step homework04_animate
       (fst (app_step homework04_animate (app_init homework04_init)
          (DOMContentLoaded \<lparr>has_webgl2 = True, shaders_load = True\<rparr>)))
       (AnimationFrame 1000)))))"
  using app_reachable_load_frame [of 1000 homework04_animate homework04_init
      "\<lparr>has_webgl2 = True, shaders_load = True\<rparr>"]
    homework04_reachable_planar [OF app_reachable_load_frame [of 1000 homework04_animate
      homework04_init "\<lparr>has_webgl2 = True, shaders_load = True\<rparr>"]]
  by simp

end
